theory Spec2Isabelle
  imports Complex_Main
begin

section \<open>JavaScript numbers\<close>

text \<open>
  Every quantity of \<^verbatim>\<open>src/model.js\<close> is a JavaScript number. The model keeps the three
  special values of IEEE arithmetic, because the program produces and tests them
  (\<^verbatim>\<open>x / 0\<close>, \<^verbatim>\<open>Math.log10(0)\<close>, \<^verbatim>\<open>Infinity * 0\<close>, comparisons with \<^verbatim>\<open>NaN\<close>), and takes the
  finite values to be exact reals: the rounding of a result within the range of the
  doubles and the sign of zero are not modelled. The single zero stands for \<^verbatim>\<open>+0\<close>, so
  a non-zero number divided by zero takes the sign of the numerator. A finite result
  leaves the range of the doubles through \<^verbatim>\<open>Math.pow\<close>, which overflows to \<^verbatim>\<open>Infinity\<close>
  and underflows to zero here as it does there; sums, products and quotients of
  finite numbers are exact, so a statement about them holds of the program where
  their operands are far from the ends of the range.
\<close>

datatype jsnum = Fin real | PInf | NInf | NaN

instantiation jsnum :: "{plus, minus, uminus, times, inverse, abs, ord}"
begin

fun uminus_jsnum :: "jsnum \<Rightarrow> jsnum" where
  "- Fin a = Fin (- a)"
| "- PInf = NInf"
| "- NInf = PInf"
| "- NaN = NaN"

fun plus_jsnum :: "jsnum \<Rightarrow> jsnum \<Rightarrow> jsnum" where
  "Fin a + Fin b = Fin (a + b)"
| "NaN + _ = NaN"
| "_ + NaN = NaN"
| "PInf + NInf = NaN"
| "NInf + PInf = NaN"
| "PInf + _ = PInf"
| "_ + PInf = PInf"
| "NInf + _ = NInf"
| "_ + NInf = NInf"

definition minus_jsnum :: "jsnum \<Rightarrow> jsnum \<Rightarrow> jsnum" where
  "minus_jsnum x y = x + (- y)"

fun times_jsnum :: "jsnum \<Rightarrow> jsnum \<Rightarrow> jsnum" where
  "Fin a * Fin b = Fin (a * b)"
| "NaN * _ = NaN"
| "_ * NaN = NaN"
| "PInf * Fin b = (if b = 0 then NaN else if 0 < b then PInf else NInf)"
| "NInf * Fin b = (if b = 0 then NaN else if 0 < b then NInf else PInf)"
| "Fin a * PInf = (if a = 0 then NaN else if 0 < a then PInf else NInf)"
| "Fin a * NInf = (if a = 0 then NaN else if 0 < a then NInf else PInf)"
| "PInf * PInf = PInf"
| "PInf * NInf = NInf"
| "NInf * PInf = NInf"
| "NInf * NInf = PInf"

fun divide_jsnum :: "jsnum \<Rightarrow> jsnum \<Rightarrow> jsnum" where
  "divide_jsnum (Fin a) (Fin b) =
     (if b = 0 then (if a = 0 then NaN else if 0 < a then PInf else NInf)
      else Fin (a / b))"
| "divide_jsnum NaN _ = NaN"
| "divide_jsnum _ NaN = NaN"
| "divide_jsnum (Fin a) PInf = Fin 0"
| "divide_jsnum (Fin a) NInf = Fin 0"
| "divide_jsnum PInf (Fin b) = (if 0 \<le> b then PInf else NInf)"
| "divide_jsnum NInf (Fin b) = (if 0 \<le> b then NInf else PInf)"
| "divide_jsnum PInf PInf = NaN"
| "divide_jsnum PInf NInf = NaN"
| "divide_jsnum NInf PInf = NaN"
| "divide_jsnum NInf NInf = NaN"

definition inverse_jsnum :: "jsnum \<Rightarrow> jsnum" where
  "inverse_jsnum x = divide (Fin 1) x"

fun abs_jsnum :: "jsnum \<Rightarrow> jsnum" where
  "\<bar>Fin a\<bar> = Fin \<bar>a\<bar>"
| "\<bar>PInf\<bar> = PInf"
| "\<bar>NInf\<bar> = PInf"
| "\<bar>NaN\<bar> = NaN"

text \<open>Comparisons follow IEEE: every comparison with \<^verbatim>\<open>NaN\<close> is false.\<close>

fun less_jsnum :: "jsnum \<Rightarrow> jsnum \<Rightarrow> bool" where
  "Fin a < Fin b \<longleftrightarrow> a < b"
| "NaN < _ \<longleftrightarrow> False"
| "_ < NaN \<longleftrightarrow> False"
| "NInf < NInf \<longleftrightarrow> False"
| "NInf < _ \<longleftrightarrow> True"
| "_ < NInf \<longleftrightarrow> False"
| "PInf < _ \<longleftrightarrow> False"
| "_ < PInf \<longleftrightarrow> True"

fun less_eq_jsnum :: "jsnum \<Rightarrow> jsnum \<Rightarrow> bool" where
  "Fin a \<le> Fin b \<longleftrightarrow> a \<le> b"
| "NaN \<le> _ \<longleftrightarrow> False"
| "_ \<le> NaN \<longleftrightarrow> False"
| "NInf \<le> _ \<longleftrightarrow> True"
| "_ \<le> PInf \<longleftrightarrow> True"
| "_ \<le> NInf \<longleftrightarrow> False"
| "PInf \<le> _ \<longleftrightarrow> False"

instance ..

end

definition finite_num :: "jsnum \<Rightarrow> bool" where
  "finite_num x = (case x of Fin _ \<Rightarrow> True | _ \<Rightarrow> False)"

text \<open>Truthiness of a number: \<^verbatim>\<open>0\<close> and \<^verbatim>\<open>NaN\<close> are falsy.\<close>

definition truthy :: "jsnum \<Rightarrow> bool" where
  "truthy x = (x \<noteq> NaN \<and> x \<noteq> Fin 0)"

subsection \<open>The \<^verbatim>\<open>Math\<close> object\<close>

definition Math_PI :: jsnum where
  "Math_PI = Fin pi"

definition Math_max :: "jsnum \<Rightarrow> jsnum \<Rightarrow> jsnum" where
  "Math_max x y = (if x = NaN \<or> y = NaN then NaN else if x < y then y else x)"

definition Math_min :: "jsnum \<Rightarrow> jsnum \<Rightarrow> jsnum" where
  "Math_min x y = (if x = NaN \<or> y = NaN then NaN else if y < x then y else x)"

definition Math_abs :: "jsnum \<Rightarrow> jsnum" where
  "Math_abs x = \<bar>x\<bar>"

fun Math_sqrt :: "jsnum \<Rightarrow> jsnum" where
  "Math_sqrt (Fin a) = (if a < 0 then NaN else Fin (sqrt a))"
| "Math_sqrt PInf = PInf"
| "Math_sqrt NInf = NaN"
| "Math_sqrt NaN = NaN"

fun Math_logb :: "real \<Rightarrow> jsnum \<Rightarrow> jsnum" where
  "Math_logb base (Fin a) = (if a < 0 then NaN else if a = 0 then NInf else Fin (log base a))"
| "Math_logb base PInf = PInf"
| "Math_logb base NInf = NaN"
| "Math_logb base NaN = NaN"

definition Math_log10 :: "jsnum \<Rightarrow> jsnum" where
  "Math_log10 = Math_logb 10"

definition Math_log2 :: "jsnum \<Rightarrow> jsnum" where
  "Math_log2 = Math_logb 2"

fun Math_sin :: "jsnum \<Rightarrow> jsnum" where
  "Math_sin (Fin a) = Fin (sin a)"
| "Math_sin _ = NaN"

fun Math_cos :: "jsnum \<Rightarrow> jsnum" where
  "Math_cos (Fin a) = Fin (cos a)"
| "Math_cos _ = NaN"

text \<open>
  The tangent is the quotient of sine and cosine, so that at an odd multiple of
  \<open>\<pi>/2\<close>, where the real tangent has a pole, the model gives an infinity and not
  HOL's \<open>x / 0 = 0\<close>.
\<close>

fun Math_tan :: "jsnum \<Rightarrow> jsnum" where
  "Math_tan (Fin a) = Fin (sin a) / Fin (cos a)"
| "Math_tan _ = NaN"

definition is_int :: "real \<Rightarrow> bool" where
  "is_int b = (b = of_int \<lfloor>b\<rfloor>)"

definition is_odd_int :: "real \<Rightarrow> bool" where
  "is_odd_int b = (is_int b \<and> odd \<lfloor>b\<rfloor>)"

text \<open>
  The range of the doubles. A real of magnitude \<open>2\<^sup>1\<^sup>0\<^sup>2\<^sup>4 - 2\<^sup>9\<^sup>7\<^sup>0\<close> or more rounds to an
  infinity, one of magnitude \<open>2\<^sup>-\<^sup>1\<^sup>0\<^sup>7\<^sup>5\<close> or less rounds to zero. \<open>to_range\<close> maps a real
  result to the number that stands for it: it overflows and underflows as the double
  does and is exact in between (the rounding within the range is not modelled).
\<close>

definition overflow_threshold :: real where
  "overflow_threshold = 2 ^ 1024 - 2 ^ 970"

definition underflow_threshold :: real where
  "underflow_threshold = 1 / 2 ^ 1075"

definition to_range :: "real \<Rightarrow> jsnum" where
  "to_range r =
     (if overflow_threshold \<le> r then PInf
      else if r \<le> - overflow_threshold then NInf
      else if \<bar>r\<bar> \<le> underflow_threshold then Fin 0
      else Fin r)"

text \<open>
  \<^verbatim>\<open>Math.pow(x, y)\<close> by the cases of ECMA-262 (Number::exponentiate): a zero
  exponent gives 1 whatever the base, a negative base needs an integer exponent. The
  power of finite numbers is where the values of this program can leave the range of
  the doubles, so its result goes through \<open>to_range\<close>.
\<close>

fun Math_pow :: "jsnum \<Rightarrow> jsnum \<Rightarrow> jsnum" where
  "Math_pow x NaN = NaN"
| "Math_pow x (Fin b) =
     (if b = 0 then Fin 1
      else case x of
        NaN \<Rightarrow> NaN
      | PInf \<Rightarrow> (if 0 < b then PInf else Fin 0)
      | NInf \<Rightarrow> (if 0 < b then (if is_odd_int b then NInf else PInf) else Fin 0)
      | Fin a \<Rightarrow>
          (if 0 < a then to_range (a powr b)
           else if a = 0 then (if 0 < b then Fin 0 else PInf)
           else if is_int b then to_range (a powi \<lfloor>b\<rfloor>)
           else NaN))"
| "Math_pow x PInf =
     (case x of
        NaN \<Rightarrow> NaN
      | Fin a \<Rightarrow> (if 1 < \<bar>a\<bar> then PInf else if \<bar>a\<bar> = 1 then NaN else Fin 0)
      | _ \<Rightarrow> PInf)"
| "Math_pow x NInf =
     (case x of
        NaN \<Rightarrow> NaN
      | Fin a \<Rightarrow> (if 1 < \<bar>a\<bar> then Fin 0 else if \<bar>a\<bar> = 1 then NaN else PInf)
      | _ \<Rightarrow> Fin 0)"

declare Math_pow.simps [simp del]

subsection \<open>Optional properties of parameter objects\<close>

text \<open>
  The functions take duck-typed objects, any property of which may be absent
  (\<^verbatim>\<open>undefined\<close>): a property is a \<open>jsnum option\<close>. In arithmetic and in comparisons
  \<^verbatim>\<open>undefined\<close> converts to \<^verbatim>\<open>NaN\<close> (\<open>num\<close>); a destructuring default \<^verbatim>\<open>{ x = d }\<close>
  replaces only \<^verbatim>\<open>undefined\<close> (\<open>dflt\<close>); \<^verbatim>\<open>x || d\<close> replaces every falsy value, so
  also \<^verbatim>\<open>0\<close> and \<^verbatim>\<open>NaN\<close> (\<open>or_else\<close>).
\<close>

definition num :: "jsnum option \<Rightarrow> jsnum" where
  "num x = (case x of None \<Rightarrow> NaN | Some v \<Rightarrow> v)"

definition dflt :: "jsnum \<Rightarrow> jsnum option \<Rightarrow> jsnum" where
  "dflt d x = (case x of None \<Rightarrow> d | Some v \<Rightarrow> v)"

definition or_else :: "jsnum option \<Rightarrow> jsnum \<Rightarrow> jsnum" where
  "or_else x d = (case x of None \<Rightarrow> d | Some v \<Rightarrow> if truthy v then v else d)"

section \<open>Link budget\<close>

record link_params =
  freq :: "jsnum option"
  rainRate :: "jsnum option"
  elevation :: "jsnum option"
  env :: "string option"
  tec :: "jsnum option"
  xpdAnt :: "jsnum option"
  correctionFactor :: "jsnum option"
  slantRange :: "jsnum option"
  hpbw :: "jsnum option"
  simTime :: "jsnum option"
  bandwidth :: "jsnum option"
  gasAttenOffset_dB :: "jsnum option"
  scatterPowerOffset_dB :: "jsnum option"
  eirp :: "jsnum option"
  gRx :: "jsnum option"
  tRx :: "jsnum option"
  isPhasedArray :: bool
  disableFastFading :: bool

text \<open>
  \<^verbatim>\<open>RAIN_COEFFS\<close>, as \<^verbatim>\<open>Object.entries\<close> enumerates it: the keys \<^verbatim>\<open>12.0\<close>, \<^verbatim>\<open>30.0\<close>,
  \<^verbatim>\<open>40.0\<close> and \<^verbatim>\<open>50.0\<close> are the property names \<^verbatim>\<open>"12"\<close> to \<^verbatim>\<open>"50"\<close>, which are array
  indices and come first in ascending order; \<^verbatim>\<open>"2.2"\<close> comes last. Each entry is
  (frequency, k, alpha).
\<close>

definition RAIN_COEFFS :: "(real \<times> real \<times> real) list" where
  "RAIN_COEFFS =
     [(12.0, 0.018, 1.15), (30.0, 0.187, 1.021), (40.0, 0.35, 0.93), (50.0, 0.55, 0.88),
      (2.2, 0.0002, 0.95)]"

text \<open>
  The nearest-frequency loop that \<^verbatim>\<open>calculateLinkBudget\<close> and \<^verbatim>\<open>computeCIR\<close> both
  contain; the state is (k, alpha, minDiff). The distances are compared as exact
  reals: at a frequency that is halfway between two rows (7.1 GHz, between 2.2 and
  12) the strict comparison keeps the earlier row here, where the doubles, whose two
  distances differ by a rounding error, can take the later one.
\<close>

definition rain_step :: "jsnum \<Rightarrow> jsnum \<times> jsnum \<times> jsnum \<Rightarrow> real \<times> real \<times> real
    \<Rightarrow> jsnum \<times> jsnum \<times> jsnum" where
  "rain_step fr st e =
     (let diff = Math_abs (Fin (fst e) - fr)
      in if diff < snd (snd st) then (Fin (fst (snd e)), Fin (snd (snd e)), diff) else st)"

definition rain_loop :: "jsnum \<Rightarrow> jsnum \<times> jsnum \<times> jsnum" where
  "rain_loop fr = foldl (rain_step fr) (Fin 0.018, Fin 1.15, Fin 100) RAIN_COEFFS"

definition attZenithGas_of :: "jsnum \<Rightarrow> jsnum" where
  "attZenithGas_of fr =
     (if fr < Fin 10 then Fin 0.05
      else if fr < Fin 20 then Fin 0.2
      else if fr < Fin 35 then Fin 0.3
      else if fr < Fin 50 then Fin 0.8
      else Fin 4.0)"

text \<open>
  \<^verbatim>\<open>getSoSFade\<close>: every caller passes a number, so the test \<^verbatim>\<open>t_sec === undefined\<close> has no
  branch here.
\<close>

definition getSoSFade :: "jsnum \<Rightarrow> jsnum" where
  "getSoSFade t_sec =
     (if t_sec = Fin 0 then Fin 0
      else foldl (\<lambda>sum fp. sum + Math_cos (Fin 2.0 * Math_PI * Fin (fst fp) * t_sec + Fin (snd fp)))
             (Fin 0)
             [(0.11, 0.1), (0.23, 1.2), (0.37, 2.3), (0.53, 3.4), (0.79, 4.5)]
           / Fin 1.581)"

record link_budget =
  attRain :: jsnum
  attGas :: jsnum
  attCloud :: jsnum
  fadeLMS :: jsnum
  lossFaraday :: jsnum
  omegaDeg :: jsnum
  totalLoss :: jsnum
  xpd :: jsnum
  actualFspl :: jsnum
  deltaFspl :: jsnum
  apparentElevation :: jsnum
  refractionCorrection :: jsnum
  pointingLoss :: jsnum
  scanLoss :: jsnum
  multipathLoss :: jsnum
  tSky :: jsnum
  totalAtmosphericLoss :: jsnum
  scintLoss :: jsnum
  scintillationSigma :: jsnum
  groupDelayNs :: jsnum
  dispersionNs :: jsnum
  maxSymbolRateMbaud :: jsnum

definition calculateLinkBudget :: "link_params \<Rightarrow> link_budget" where
  "calculateLinkBudget params =
     (let freq = num (freq params);
          rainRate = num (rainRate params);
          elevation = num (elevation params);
          env = env params;
          tec = dflt (Fin 50.0) (tec params);
          xpdAnt = dflt (Fin 35.0) (xpdAnt params);
          correctionFactor = dflt (Fin 1.0) (correctionFactor params);
          slantRange = dflt (Fin 35786) (slantRange params);
          hpbw = dflt (Fin 2.0) (hpbw params);
          simTime = dflt (Fin 0) (simTime params);

          trueElev = Math_max (Fin 0) elevation;
          refractionCorrection =
            Fin 1.02 / Math_tan ((trueElev + Fin 10.3 / (trueElev + Fin 5.11)) * Math_PI / Fin 180)
              / Fin 60.0;
          apparentElevation = elevation + refractionCorrection;

          pointingLoss =
            (if Fin 0 < hpbw then Fin 12.0 * Math_pow (refractionCorrection / hpbw) (Fin 2)
             else Fin 0);
          effElev = apparentElevation;

          rc = rain_loop freq;
          k = fst rc;
          alpha = fst (snd rc);

          gamma = k * Math_pow rainRate alpha * correctionFactor;
          elevRad = (effElev * Math_PI) / Fin 180;
          heightRain = Fin 3.0;
          slantPath = heightRain / Math_sin elevRad;
          rFactor = Fin 1 / (Fin 1 + Fin 0.045 * slantPath);
          lEff = slantPath * rFactor;
          attRain = gamma * lEff;

          attZenithGas = attZenithGas_of freq;
          attGas = attZenithGas / Math_sin elevRad;

          K_l = Fin 0.0002 * Math_pow freq (Fin 1.95);
          L_content = Fin 0.5;
          attCloud = (L_content * K_l) / Math_sin elevRad;

          totalAtmosphericLoss =
            attRain + attGas + attCloud + or_else (gasAttenOffset_dB params) (Fin 0);

          omegaDeg = (Fin 108 * tec) / (Math_pow freq (Fin 2) * Math_sin elevRad);
          omegaRad = (omegaDeg * Math_PI) / Fin 180;

          cosOmega = Math_abs (Math_cos omegaRad);
          lossFaraday =
            (if Fin 0.001 < cosOmega then - Fin 20 * Math_log10 cosOmega else Fin 60.0);

          tanOmega = Math_abs (Math_tan omegaRad);
          xpdFaraday =
            (if Fin 0.0001 < tanOmega then - Fin 20 * Math_log10 tanOmega else Fin 40.0);

          xpdRain =
            (if Fin 0.1 < attRain
             then (let U = Fin 30 * Math_log10 freq; V = Fin 20.0 in U - V * Math_log10 attRain)
             else Fin 40.0);

          xpdAntPower = Math_pow (Fin 10) (- xpdAnt / Fin 10);

          crossPowRain = Math_pow (Fin 10) (- xpdRain / Fin 10);
          crossPowFaraday = Math_pow (Fin 10) (- xpdFaraday / Fin 10);
          xpd0 = - Fin 10 * Math_log10 (crossPowRain + crossPowFaraday + xpdAntPower);
          xpd = Math_max (Fin 0) (Math_min (Fin 40) xpd0);

          fadeLMS =
            (if env = Some ''urban'' then Fin 15.0 - effElev * Fin 0.15
             else if env = Some ''suburban'' then Fin 6.0 - effElev * Fin 0.05
             else if env = Some ''maritime'' then Fin 0.0
             else Fin 0.5);

          multipathLoss =
            (if env = Some ''maritime'' then
               (let h_rx = Fin 15.0;
                    c_GHz_m = Fin 0.299792458;
                    elevRadP = apparentElevation * (Math_PI / Fin 180.0);
                    phaseTerm =
                      (Fin 2.0 * Math_PI * h_rx * Math_abs (Math_sin elevRadP) * freq) / c_GHz_m;
                    g_mp0 = Fin 4.0 * Math_pow (Math_sin phaseTerm) (Fin 2);
                    g_mp = Math_max (Fin 0.01) g_mp0
                in - Fin 10.0 * Math_log10 g_mp)
             else Fin 0);

          refFspl = Fin 20 * Math_log10 (Fin 35786) + Fin 20 * Math_log10 freq + Fin 92.45;
          actualFspl = Fin 20 * Math_log10 slantRange + Fin 20 * Math_log10 freq + Fin 92.45;
          deltaFspl = actualFspl - refFspl;

          scanLoss =
            (if isPhasedArray params then
               (let scanAngleRad = (Fin 90.0 - apparentElevation) * (Math_PI / Fin 180.0);
                    cosScan = Math_max (Fin 0.01) (Math_cos scanAngleRad)
                in - Fin 15.0 * Math_log10 cosScan)
             else Fin 0);

          sinElev = Math_max (Fin 0.01) (Math_sin (effElev * Math_PI / Fin 180.0));
          sigmaTropo = Fin 0.025 * Math_pow freq (Fin 0.58) / Math_pow sinElev (Fin 1.2);
          sigmaIono =
            (or_else (link_params.tec params) (Fin 50) / Fin 100.0)
              * (Fin 2.0 / Math_pow freq (Fin 1.5)) / Math_pow sinElev (Fin 1.2);
          scintillationSigma = Math_sqrt (sigmaTropo * sigmaTropo + sigmaIono * sigmaIono);

          tecVal = dflt (Fin 50) (link_params.tec params);
          bwMHz = dflt (Fin 400) (bandwidth params);
          groupDelayNs = (Fin 134.0 * tecVal) / (freq * freq * sinElev);
          dispersionNs =
            (Fin 2.0 * Fin 134.0 * tecVal * (bwMHz / Fin 1000.0))
              / (Math_pow freq (Fin 3) * sinElev);
          maxSymbolRateMbaud =
            (if Fin 0.001 < dispersionNs then Fin 1000.0 / (Fin 2.0 * dispersionNs)
             else Fin 999999);

          scintLoss =
            (if truthy simTime \<and> \<not> disableFastFading params
             then getSoSFade simTime * scintillationSigma else Fin 0);

          totalLoss =
            totalAtmosphericLoss + fadeLMS + lossFaraday + deltaFspl + pointingLoss + scanLoss
              + multipathLoss + scintLoss;

          tSky = Fin 290.0 * (Fin 1.0 - Math_pow (Fin 10) (- totalAtmosphericLoss / Fin 10.0))
      in \<lparr>attRain = attRain, attGas = attGas, attCloud = attCloud, fadeLMS = fadeLMS,
          lossFaraday = lossFaraday, omegaDeg = omegaDeg, totalLoss = totalLoss, xpd = xpd,
          actualFspl = actualFspl, deltaFspl = deltaFspl,
          apparentElevation = apparentElevation, refractionCorrection = refractionCorrection,
          pointingLoss = pointingLoss, scanLoss = scanLoss, multipathLoss = multipathLoss,
          tSky = tSky, totalAtmosphericLoss = totalAtmosphericLoss, scintLoss = scintLoss,
          scintillationSigma = scintillationSigma, groupDelayNs = groupDelayNs,
          dispersionNs = dispersionNs, maxSymbolRateMbaud = maxSymbolRateMbaud\<rparr>)"

section \<open>MIMO capacity\<close>

record mimo_capacity =
  capRank2 :: jsnum
  capRank1 :: jsnum

definition calculateMIMOCapacity :: "jsnum \<Rightarrow> jsnum \<Rightarrow> mimo_capacity" where
  "calculateMIMOCapacity snrDb xpdDb =
     (let snr = Math_pow (Fin 10) (snrDb / Fin 10);
          crosstalkPower = Math_pow (Fin 10) (- xpdDb / Fin 10);
          pSig = snr / Fin 2;
          sinrSimple = pSig / (Fin 1 + pSig * crosstalkPower);
          capRank2 = Fin 2 * Math_log2 (Fin 1 + sinrSimple);
          capRank1 = Math_log2 (Fin 1 + snr)
      in \<lparr>capRank2 = capRank2, capRank1 = capRank1\<rparr>)"

section \<open>Calibration\<close>

text \<open>
  \<^verbatim>\<open>CALIB_PARAM_DEFS\<close>. The fields \<^verbatim>\<open>min\<close> and \<^verbatim>\<open>max\<close> are \<open>minVal\<close> and \<open>maxVal\<close> here;
  the display label of each entry plays no part in any computation and is left out.
  The array is a variable of the module, and \<^verbatim>\<open>getCalibParamDefs\<close> returns the array
  itself: a caller can change its entries. \<open>CALIB_PARAM_DEFS\<close> is the contents that the
  module gives it; the functions that read the array take its contents as their first
  argument \<open>defs\<close> (their names end in \<open>_in\<close>).
\<close>

record calib_param_def =
  key :: string
  defaultVal :: jsnum
  minVal :: jsnum
  maxVal :: jsnum
  step :: jsnum

definition CALIB_PARAM_DEFS :: "calib_param_def list" where
  "CALIB_PARAM_DEFS =
     [\<lparr>key = ''correctionFactor'', defaultVal = Fin 1.0, minVal = Fin 0.3, maxVal = Fin 3.0,
       step = Fin 0.01\<rparr>,
      \<lparr>key = ''gasAttenOffset_dB'', defaultVal = Fin 0.0, minVal = Fin (- 2.0), maxVal = Fin 2.0,
       step = Fin 0.01\<rparr>,
      \<lparr>key = ''scatterPowerOffset_dB'', defaultVal = Fin 0.0, minVal = Fin (- 10),
       maxVal = Fin 5.0, step = Fin 0.1\<rparr>,
      \<lparr>key = ''eirpOffset_dB'', defaultVal = Fin 0.0, minVal = Fin (- 5.0), maxVal = Fin 5.0,
       step = Fin 0.1\<rparr>,
      \<lparr>key = ''systemNoiseOffset_K'', defaultVal = Fin 0.0, minVal = Fin (- 50),
       maxVal = Fin 100, step = Fin 1.0\<rparr>]"

text \<open>
  A calibration profile. The \<^verbatim>\<open>params\<close> object is a map from the parameter's key to its
  value. The timestamp is \<^verbatim>\<open>null\<close> or the ISO rendering of an instant; it is
  modelled by the instant, in milliseconds. \<^verbatim>\<open>refSatellite\<close> is \<open>None\<close> when the
  property is \<^verbatim>\<open>null\<close> or absent.
\<close>

type_synonym instant = int

record calibration_profile =
  calibrated :: bool
  timestamp :: "instant option"
  dataPointCount :: nat
  residualRMS :: jsnum
  refSatellite :: "string option"
  params :: "string \<rightharpoonup> jsnum"

definition default_params_in :: "calib_param_def list \<Rightarrow> (string \<rightharpoonup> jsnum)" where
  "default_params_in defs = foldl (\<lambda>m d. m(key d \<mapsto> defaultVal d)) Map.empty defs"

definition createDefaultCalibration_in :: "calib_param_def list \<Rightarrow> calibration_profile" where
  "createDefaultCalibration_in defs =
     \<lparr>calibrated = False, timestamp = None, dataPointCount = 0, residualRMS = Fin 0,
      refSatellite = None, params = default_params_in defs\<rparr>"

definition applyCalibration :: "link_params \<Rightarrow> calibration_profile option \<Rightarrow> link_params" where
  "applyCalibration rawParams calibProfile =
     (case calibProfile of
        None \<Rightarrow> rawParams
      | Some prof \<Rightarrow>
          if \<not> calibrated prof then rawParams
          else
            (let cp = params prof
             in rawParams
                  \<lparr>correctionFactor := Some (or_else (cp ''correctionFactor'') (Fin 1.0)),
                   gasAttenOffset_dB := Some (or_else (cp ''gasAttenOffset_dB'') (Fin 0)),
                   scatterPowerOffset_dB := Some (or_else (cp ''scatterPowerOffset_dB'') (Fin 0)),
                   eirp := Some (or_else (eirp rawParams) (Fin 60.0)
                                  + or_else (cp ''eirpOffset_dB'') (Fin 0)),
                   tRx := Some (or_else (tRx rawParams) (Fin 150.0)
                                 + or_else (cp ''systemNoiseOffset_K'') (Fin 0))\<rparr>))"

text \<open>
  A measurement point; a field is \<open>None\<close> when the property is \<^verbatim>\<open>null\<close> or absent
  (the source tests them with \<^verbatim>\<open>!= null\<close> and with \<^verbatim>\<open>||\<close>).
\<close>

record measurement =
  m_elevation :: "jsnum option"
  m_rainRate :: "jsnum option"
  measuredCN0_dB :: "jsnum option"
  measuredRSSI_dBm :: "jsnum option"
  measuredXPD_dB :: "jsnum option"
  measuredAttenuation_dB :: "jsnum option"
  measuredLoss :: "jsnum option"

record sim_result =
  predictedCN0 :: jsnum
  predictedRSSI :: jsnum
  predictedXPD :: jsnum
  predictedAtten :: jsnum
  sim_totalLoss :: jsnum

definition k_boltzmann :: jsnum where
  "k_boltzmann = Fin (1.380649 / 10 ^ 23)"

definition simulateForMeasurement :: "link_params \<Rightarrow> measurement \<Rightarrow> sim_result" where
  "simulateForMeasurement linkParams m =
     (let testParams = linkParams
            \<lparr>elevation := Some (or_else (m_elevation m) (or_else (elevation linkParams) (Fin 30))),
             rainRate := Some (case m_rainRate m of
                                 Some r \<Rightarrow> r
                               | None \<Rightarrow> or_else (rainRate linkParams) (Fin 0))\<rparr>;
          lb = calculateLinkBudget testParams;
          freq = or_else (freq linkParams) (Fin 30);
          eirp = or_else (eirp linkParams) (Fin 60.0);
          gRx = or_else (gRx linkParams) (Fin 42.0);
          tRx = or_else (tRx linkParams) (Fin 150.0);
          bwMHz = or_else (bandwidth linkParams) (Fin 400.0);
          slantRange = or_else (slantRange linkParams) (Fin 35786);
          absoluteFspl = Fin 20 * Math_log10 slantRange + Fin 20 * Math_log10 freq + Fin 92.45;
          absoluteLoss =
            totalAtmosphericLoss lb + fadeLMS lb + lossFaraday lb + pointingLoss lb
              + or_else (Some (scanLoss lb)) (Fin 0) + or_else (Some (multipathLoss lb)) (Fin 0)
              + absoluteFspl;
          rxPowerDbm = eirp + Fin 30 - absoluteLoss + gRx;
          tSys = tRx + tSky lb + Fin 3.0;
          noisePowerW = k_boltzmann * tSys * (bwMHz * Fin 1000000);
          noiseFloorDbm = Fin 10 * Math_log10 noisePowerW + Fin 30;
          cn0 = Math_max (- Fin 30) (rxPowerDbm - noiseFloorDbm)
      in \<lparr>predictedCN0 = cn0, predictedRSSI = rxPowerDbm, predictedXPD = xpd lb,
          predictedAtten = totalAtmosphericLoss lb, sim_totalLoss = totalLoss lb\<rparr>)"

definition residuals_of :: "sim_result \<Rightarrow> measurement \<Rightarrow> jsnum list" where
  "residuals_of sim m =
     (case measuredCN0_dB m of Some v \<Rightarrow> [(predictedCN0 sim - v) * Fin 2.0] | None \<Rightarrow> [])
     @ (case measuredRSSI_dBm m of Some v \<Rightarrow> [(predictedRSSI sim - v) * Fin 1.5] | None \<Rightarrow> [])
     @ (case measuredXPD_dB m of Some v \<Rightarrow> [(predictedXPD sim - v) * Fin 1.0] | None \<Rightarrow> [])
     @ (case measuredAttenuation_dB m of
          Some v \<Rightarrow> [(predictedAtten sim - v) * Fin 1.5] | None \<Rightarrow> [])
     @ (case measuredLoss m of
          Some v \<Rightarrow> (if measuredCN0_dB m = None then [(sim_totalLoss sim - v) * Fin 1.0] else [])
        | None \<Rightarrow> [])"

definition computeResiduals ::
    "measurement list \<Rightarrow> link_params \<Rightarrow> (string \<rightharpoonup> jsnum) \<Rightarrow> jsnum list" where
  "computeResiduals measurements linkParams calibParams =
     (let testProfile =
            \<lparr>calibrated = True, timestamp = None, dataPointCount = 0, residualRMS = Fin 0,
             refSatellite = None, params = calibParams\<rparr>;
          calibratedParams = applyCalibration linkParams (Some testProfile)
      in concat (map (\<lambda>m. residuals_of (simulateForMeasurement calibratedParams m) m)
                   measurements))"

subsection \<open>One Gauss-Newton iteration\<close>

definition nParams_in :: "calib_param_def list \<Rightarrow> nat" where
  "nParams_in defs = length defs"

text \<open>Column \<open>p\<close> of the numerical Jacobian: the parameter is perturbed, then restored.\<close>

definition jacobian_col_in ::
    "calib_param_def list \<Rightarrow> measurement list \<Rightarrow> link_params \<Rightarrow> (string \<rightharpoonup> jsnum)
      \<Rightarrow> jsnum list \<Rightarrow> nat \<Rightarrow> jsnum list" where
  "jacobian_col_in defs measurements effectiveParams calibParams residuals p =
     (let d = defs ! p;
          delta = Math_max (step d * Fin 0.1) (Fin 0.000001);
          savedVal = num (calibParams (key d));
          rPlus = computeResiduals measurements effectiveParams
                    (calibParams(key d \<mapsto> savedVal + delta))
      in map (\<lambda>r. (rPlus ! r - residuals ! r) / delta) [0..<length residuals])"

definition dot :: "jsnum list \<Rightarrow> jsnum list \<Rightarrow> nat \<Rightarrow> jsnum" where
  "dot u v n = foldl (\<lambda>sum r. sum + u ! r * v ! r) (Fin 0) [0..<n]"

definition dampingFactor :: jsnum where
  "dampingFactor = Fin 0.01"

text \<open>
  Gaussian elimination with partial pivoting on the pair (A, b), one column at a time.
  Every index stays below \<open>nParams_in defs\<close>, the size of the arrays.
\<close>

definition find_maxRow_in ::
    "calib_param_def list \<Rightarrow> jsnum list list \<Rightarrow> nat \<Rightarrow> nat" where
  "find_maxRow_in defs A col =
     foldl (\<lambda>maxRow row.
              if Math_abs (A ! maxRow ! col) < Math_abs (A ! row ! col) then row else maxRow)
       col [col + 1..<nParams_in defs]"

definition swap :: "'a list \<Rightarrow> nat \<Rightarrow> nat \<Rightarrow> 'a list" where
  "swap xs i j = xs[i := xs ! j, j := xs ! i]"

definition eliminate_row_in ::
    "calib_param_def list \<Rightarrow> nat \<Rightarrow> jsnum \<Rightarrow> jsnum list list \<times> jsnum list \<Rightarrow> nat
      \<Rightarrow> jsnum list list \<times> jsnum list" where
  "eliminate_row_in defs col pivot Ab row =
     (let A = fst Ab; b = snd Ab;
          factor = A ! row ! col / pivot;
          newRow = foldl (\<lambda>rw j. rw[j := rw ! j - factor * A ! col ! j]) (A ! row)
                     [col..<nParams_in defs]
      in (A[row := newRow], b[row := b ! row - factor * b ! col]))"

definition eliminate_col_in ::
    "calib_param_def list \<Rightarrow> jsnum list list \<times> jsnum list \<Rightarrow> nat
      \<Rightarrow> jsnum list list \<times> jsnum list" where
  "eliminate_col_in defs Ab col =
     (let maxRow = find_maxRow_in defs (fst Ab) col;
          A = swap (fst Ab) col maxRow;
          b = swap (snd Ab) col maxRow;
          pivot = A ! col ! col
      in if Math_abs pivot < Fin 0.000000000001 then (A, b)
         else foldl (eliminate_row_in defs col pivot) (A, b) [col + 1..<nParams_in defs])"

definition back_substitute_in ::
    "calib_param_def list \<Rightarrow> jsnum list list \<Rightarrow> jsnum list \<Rightarrow> jsnum list" where
  "back_substitute_in defs A b =
     foldl (\<lambda>dp i.
              let sum = foldl (\<lambda>sum j. sum - A ! i ! j * dp ! j) (b ! i)
                          [i + 1..<nParams_in defs]
              in dp[i := (if Fin 0.000000000001 < Math_abs (A ! i ! i)
                          then sum / (A ! i ! i) else Fin 0)])
       (replicate (nParams_in defs) (Fin 0)) (rev [0..<nParams_in defs])"

text \<open>
  The normal equations of one iteration, from the Jacobian \<open>J\<close> (one row for each
  parameter) and the residuals: \<open>JtJ\<close> and \<open>JtR\<close>, the damping of the diagonal, the
  elimination and the back substitution.
\<close>

definition solve_normal_equations_in ::
    "calib_param_def list \<Rightarrow> jsnum list list \<Rightarrow> jsnum list \<Rightarrow> jsnum list" where
  "solve_normal_equations_in defs J residuals =
     (let nResiduals = length residuals;
          JtJ0 = map (\<lambda>i. map (\<lambda>j. dot (J ! i) (J ! j) nResiduals)
                              [0..<nParams_in defs])
                   [0..<nParams_in defs];
          JtR = map (\<lambda>i. dot (J ! i) residuals nResiduals) [0..<nParams_in defs];
          JtJ = map (\<lambda>i. (JtJ0 ! i)
                              [i := JtJ0 ! i ! i
                                      + dampingFactor * (JtJ0 ! i ! i + Fin 0.00000001)])
                  [0..<nParams_in defs];
          Ab = foldl (eliminate_col_in defs) (JtJ, JtR) [0..<nParams_in defs]
      in back_substitute_in defs (fst Ab) (snd Ab))"

text \<open>
  The step \<open>dp\<close> of one iteration. The source also computes the current cost, which
  it never reads.
\<close>

definition solve_step_in ::
    "calib_param_def list \<Rightarrow> measurement list \<Rightarrow> link_params \<Rightarrow> (string \<rightharpoonup> jsnum)
      \<Rightarrow> jsnum list" where
  "solve_step_in defs measurements effectiveParams calibParams =
     (let residuals = computeResiduals measurements effectiveParams calibParams;
          J = map (jacobian_col_in defs measurements effectiveParams calibParams residuals)
                [0..<nParams_in defs]
      in solve_normal_equations_in defs J residuals)"

text \<open>
  The bounded update of the parameters; the state is (calibParams, maxStep) and
  \<open>p\<close> runs over the parameter definitions.
\<close>

definition update_param_in ::
    "calib_param_def list \<Rightarrow> jsnum list \<Rightarrow> (string \<rightharpoonup> jsnum) \<times> jsnum \<Rightarrow> nat
      \<Rightarrow> (string \<rightharpoonup> jsnum) \<times> jsnum" where
  "update_param_in defs dp st p =
     (let calibParams = fst st; maxStep = snd st;
          d = defs ! p;
          newVal = Math_max (minVal d) (Math_min (maxVal d) (num (calibParams (key d)) - dp ! p))
      in (calibParams(key d \<mapsto> newVal),
          Math_max maxStep (Math_abs (newVal - num (calibParams (key d))))))"

definition gn_iteration_in ::
    "calib_param_def list \<Rightarrow> measurement list \<Rightarrow> link_params \<Rightarrow> (string \<rightharpoonup> jsnum)
      \<Rightarrow> (string \<rightharpoonup> jsnum) \<times> jsnum" where
  "gn_iteration_in defs measurements effectiveParams calibParams =
     foldl (update_param_in defs (solve_step_in defs measurements effectiveParams calibParams))
       (calibParams, Fin 0) [0..<nParams_in defs]"

definition convergenceThreshold :: jsnum where
  "convergenceThreshold = Fin 0.000001"

definition maxIterations :: nat where
  "maxIterations = 30"

text \<open>The iteration loop; the first argument counts the iterations that remain.\<close>

fun gn_loop_in ::
    "calib_param_def list \<Rightarrow> nat \<Rightarrow> measurement list \<Rightarrow> link_params \<Rightarrow> (string \<rightharpoonup> jsnum)
      \<Rightarrow> (string \<rightharpoonup> jsnum)" where
  "gn_loop_in defs 0 measurements effectiveParams calibParams = calibParams"
| "gn_loop_in defs (Suc n) measurements effectiveParams calibParams =
     (let st = gn_iteration_in defs measurements effectiveParams calibParams
      in if snd st < convergenceThreshold then fst st
         else gn_loop_in defs n measurements effectiveParams (fst st))"

record ref_satellite =
  sat_freq :: "jsnum option"
  sat_eirp :: "jsnum option"
  satName :: "string option"

text \<open>
  \<^verbatim>\<open>calibrateModel\<close>. After the contents of the parameter table, the first argument
  is the reading of the wall clock that \<^verbatim>\<open>new Date()\<close> takes at the end of the call;
  \<open>measurements\<close> is \<open>None\<close> when the argument is missing.
\<close>

definition calibrateModel_in ::
    "calib_param_def list \<Rightarrow> instant \<Rightarrow> measurement list option \<Rightarrow> link_params
      \<Rightarrow> ref_satellite option \<Rightarrow> calibration_profile" where
  "calibrateModel_in defs now measurements linkParams refSat =
     (case measurements of
        None \<Rightarrow> createDefaultCalibration_in defs
      | Some ms \<Rightarrow>
          if length ms = 0 then createDefaultCalibration_in defs
          else
            (let effectiveParams =
                   (case refSat of
                      Some sat \<Rightarrow> linkParams\<lparr>freq := sat_freq sat, eirp := sat_eirp sat\<rparr>
                    | None \<Rightarrow> linkParams);
                 calibParams =
                   gn_loop_in defs maxIterations ms effectiveParams (default_params_in defs);
                 finalResiduals = computeResiduals ms effectiveParams calibParams;
                 rmsResidual =
                   Math_sqrt (foldl (\<lambda>s r. s + r * r) (Fin 0) finalResiduals
                              / Math_max (Fin 1) (Fin (real (length finalResiduals))))
             in \<lparr>calibrated = True, timestamp = Some now, dataPointCount = length ms,
                 residualRMS = rmsResidual,
                 refSatellite = (case refSat of Some sat \<Rightarrow> satName sat | None \<Rightarrow> None),
                 params = calibParams\<rparr>))"

subsection \<open>The operations on the parameter table as the module defines it\<close>

text \<open>
  As long as no caller has written to the array that \<^verbatim>\<open>getCalibParamDefs\<close> returns, the
  table has the contents \<open>CALIB_PARAM_DEFS\<close>. The operations under the names of the source
  are the ones above at these contents.
\<close>

definition default_params :: "string \<rightharpoonup> jsnum" where
  "default_params = default_params_in CALIB_PARAM_DEFS"

definition createDefaultCalibration :: calibration_profile where
  "createDefaultCalibration = createDefaultCalibration_in CALIB_PARAM_DEFS"

definition nParams :: nat where
  "nParams = nParams_in CALIB_PARAM_DEFS"

definition jacobian_col ::
    "measurement list \<Rightarrow> link_params \<Rightarrow> (string \<rightharpoonup> jsnum) \<Rightarrow> jsnum list \<Rightarrow> nat
      \<Rightarrow> jsnum list" where
  "jacobian_col = jacobian_col_in CALIB_PARAM_DEFS"

definition find_maxRow :: "jsnum list list \<Rightarrow> nat \<Rightarrow> nat" where
  "find_maxRow = find_maxRow_in CALIB_PARAM_DEFS"

definition eliminate_row ::
    "nat \<Rightarrow> jsnum \<Rightarrow> jsnum list list \<times> jsnum list \<Rightarrow> nat \<Rightarrow> jsnum list list \<times> jsnum list" where
  "eliminate_row = eliminate_row_in CALIB_PARAM_DEFS"

definition eliminate_col ::
    "jsnum list list \<times> jsnum list \<Rightarrow> nat \<Rightarrow> jsnum list list \<times> jsnum list" where
  "eliminate_col = eliminate_col_in CALIB_PARAM_DEFS"

definition back_substitute :: "jsnum list list \<Rightarrow> jsnum list \<Rightarrow> jsnum list" where
  "back_substitute = back_substitute_in CALIB_PARAM_DEFS"

definition solve_normal_equations :: "jsnum list list \<Rightarrow> jsnum list \<Rightarrow> jsnum list" where
  "solve_normal_equations = solve_normal_equations_in CALIB_PARAM_DEFS"

definition solve_step ::
    "measurement list \<Rightarrow> link_params \<Rightarrow> (string \<rightharpoonup> jsnum) \<Rightarrow> jsnum list" where
  "solve_step = solve_step_in CALIB_PARAM_DEFS"

definition update_param ::
    "jsnum list \<Rightarrow> (string \<rightharpoonup> jsnum) \<times> jsnum \<Rightarrow> nat \<Rightarrow> (string \<rightharpoonup> jsnum) \<times> jsnum" where
  "update_param = update_param_in CALIB_PARAM_DEFS"

definition gn_iteration ::
    "measurement list \<Rightarrow> link_params \<Rightarrow> (string \<rightharpoonup> jsnum) \<Rightarrow> (string \<rightharpoonup> jsnum) \<times> jsnum" where
  "gn_iteration = gn_iteration_in CALIB_PARAM_DEFS"

definition gn_loop ::
    "nat \<Rightarrow> measurement list \<Rightarrow> link_params \<Rightarrow> (string \<rightharpoonup> jsnum) \<Rightarrow> (string \<rightharpoonup> jsnum)" where
  "gn_loop = gn_loop_in CALIB_PARAM_DEFS"

definition calibrateModel ::
    "instant \<Rightarrow> measurement list option \<Rightarrow> link_params \<Rightarrow> ref_satellite option
      \<Rightarrow> calibration_profile" where
  "calibrateModel = calibrateModel_in CALIB_PARAM_DEFS"

section \<open>Channel impulse response\<close>

text \<open>
  The labels of the taps are string constants of the source (in Chinese but for
  \<^verbatim>\<open>LOS\<close>); each is a constructor here, in the order in which the source mentions them:
  line of sight, sea reflection, building scatter near and far, vegetation scatter near
  and far, ionospheric dispersion.
\<close>

datatype tap_label =
  LOS | SeaReflection | BuildingScatterNear | BuildingScatterFar
  | VegetationScatterNear | VegetationScatterFar | IonosphericDispersion

record channel_tap =
  index :: nat
  label :: tap_label
  delay_ns :: jsnum
  excessDelay_ns :: jsnum
  amplitude_linear :: jsnum
  amplitude_dB :: jsnum
  phase_rad :: jsnum

record cir =
  taps :: "channel_tap list"
  rmsDelaySpread_ns :: jsnum
  coherenceBandwidth_MHz :: jsnum
  absoluteFspl :: jsnum
  totalAtmLoss :: jsnum

definition C_M_S :: jsnum where
  "C_M_S = Fin 299792458"

text \<open>The entries of \<^verbatim>\<open>scatterParams\<close>: (delay, power, label).\<close>

definition scatterParams :: "string option \<Rightarrow> (jsnum \<times> jsnum \<times> tap_label) list" where
  "scatterParams e =
     (if e = Some ''urban''
      then [(Fin 100, - Fin 15, BuildingScatterNear), (Fin 300, - Fin 22, BuildingScatterFar)]
      else [(Fin 80, - Fin 18, VegetationScatterNear), (Fin 200, - Fin 25, VegetationScatterFar)])"

text \<open>
  The body of \<^verbatim>\<open>scatterParams.forEach((sp, i) => ...)\<close>: it pushes one tap, whose index is
  the length of the list so far.
\<close>

definition push_scatter ::
    "jsnum \<Rightarrow> jsnum \<Rightarrow> jsnum \<Rightarrow> jsnum \<Rightarrow> channel_tap list \<Rightarrow> nat \<times> jsnum \<times> jsnum \<times> tap_label
      \<Rightarrow> channel_tap list" where
  "push_scatter losDelay_ns losAmplitude_dB elevFactor simT tps isp =
     (let i = fst isp; sp_delay = fst (snd isp); sp_power = fst (snd (snd isp));
          sp_label = snd (snd (snd isp));
          scatterPower_dB = losAmplitude_dB + sp_power * elevFactor;
          scatterAmplitude = Math_pow (Fin 10) (scatterPower_dB / Fin 20);
          phase = (if Fin 0 < simT
                   then getSoSFade (simT + Fin (real i) * Fin 7.3) * Math_PI
                   else (Fin (real i) + Fin 1) * Fin 1.7)
      in tps @ [\<lparr>index = length tps, label = sp_label, delay_ns = losDelay_ns + sp_delay,
                 excessDelay_ns = sp_delay, amplitude_linear = scatterAmplitude,
                 amplitude_dB = scatterPower_dB, phase_rad = phase\<rparr>])"

text \<open>
  In \<^verbatim>\<open>computeCIR\<close> the argument \<^verbatim>\<open>params\<close> of the source is \<open>ps\<close>.
\<close>

text \<open>The ionospheric dispersion of \<^verbatim>\<open>computeCIR\<close>, with its falsy default for the TEC.\<close>

definition cir_dispersionNs :: "jsnum option \<Rightarrow> jsnum \<Rightarrow> jsnum \<Rightarrow> jsnum" where
  "cir_dispersionNs tec_prop fr sinElev =
     (let tec = dflt (Fin 50) tec_prop;
          tecVal = or_else (Some tec) (Fin 50)
      in (Fin 2.0 * Fin 134.0 * tecVal * Fin 0.4) / (Math_pow fr (Fin 3) * sinElev))"

definition computeCIR :: "link_params \<Rightarrow> cir" where
  "computeCIR ps =
     (let freq = num (freq ps);
          elevation = num (elevation ps);
          slantRange = num (slantRange ps);
          env = env ps;
          rainRate = dflt (Fin 0) (rainRate ps);
          correctionFactor = dflt (Fin 1.0) (correctionFactor ps);
          simTime = dflt (Fin 0) (simTime ps);

          elevRad = Math_max (Fin 0.1) elevation * Math_PI / Fin 180;
          sinElev = Math_sin elevRad;

          losDelay_ns = (slantRange * Fin 1000 / C_M_S) * Fin 1000000000;
          absoluteFspl = Fin 20 * Math_log10 slantRange + Fin 20 * Math_log10 freq + Fin 92.45;

          rc = rain_loop freq;
          k_coeff = fst rc;
          alpha_coeff = fst (snd rc);
          gamma = k_coeff * Math_pow rainRate alpha_coeff * correctionFactor;
          heightRain = Fin 3.0;
          slantPath = heightRain / sinElev;
          rFactor = Fin 1 / (Fin 1 + Fin 0.045 * slantPath);
          attRain = gamma * slantPath * rFactor;

          attZenithGas = attZenithGas_of freq;
          attGas = attZenithGas / sinElev;

          K_l = Fin 0.0002 * Math_pow freq (Fin 1.95);
          L_content = Fin 0.5;
          attCloud = (L_content * K_l) / sinElev;

          totalAtmLoss = attRain + attGas + attCloud;

          losAmplitude = Math_pow (Fin 10) (- (absoluteFspl + totalAtmLoss) / Fin 20);
          losAmplitude_dB = - (absoluteFspl + totalAtmLoss);

          taps0 = [\<lparr>index = 0, label = LOS, delay_ns = losDelay_ns, excessDelay_ns = Fin 0,
                     amplitude_linear = losAmplitude, amplitude_dB = losAmplitude_dB,
                     phase_rad = Fin 0\<rparr>];

          taps1 =
            (if env = Some ''maritime'' then
               (let h_rx = Fin 15.0;
                    pathDiff_m = Fin 2 * h_rx * sinElev;
                    excessDelay = (pathDiff_m / C_M_S) * Fin 1000000000;
                    reflCoeff = - Fin 0.85;
                    reflAmplitude = losAmplitude * Math_abs reflCoeff;
                    reflPhase = Math_PI
                in taps0 @ [\<lparr>index = 1, label = SeaReflection,
                               delay_ns = losDelay_ns + excessDelay, excessDelay_ns = excessDelay,
                               amplitude_linear = reflAmplitude,
                               amplitude_dB = Fin 20 * Math_log10 reflAmplitude,
                               phase_rad = reflPhase\<rparr>])
             else taps0);

          taps2 =
            (if env = Some ''urban'' \<or> env = Some ''suburban'' then
               (let elevFactor = Math_max (Fin 0.1) (Fin 1.0 - elevation / Fin 90.0);
                    sps = scatterParams env
                in foldl (push_scatter losDelay_ns losAmplitude_dB elevFactor simTime) taps1
                     (zip [0..<length sps] sps))
             else taps1);

          dispersionNs = cir_dispersionNs (tec ps) freq sinElev;
          taps3 =
            (if Fin 0.01 < dispersionNs then
               (let ionoPower_dB = losAmplitude_dB - Fin 30 - Fin 10 * Math_log10 freq;
                    ionoAmplitude = Math_pow (Fin 10) (ionoPower_dB / Fin 20)
                in taps2 @ [\<lparr>index = length taps2, label = IonosphericDispersion,
                               delay_ns = losDelay_ns + dispersionNs,
                               excessDelay_ns = dispersionNs,
                               amplitude_linear = ionoAmplitude, amplitude_dB = ionoPower_dB,
                               phase_rad =
                                 (if Fin 0 < simTime
                                  then getSoSFade (simTime * Fin 0.3) * Math_PI * Fin 0.5
                                  else Fin 0.5)\<rparr>])
             else taps2);

          totalPower =
            foldl (\<lambda>s t. s + amplitude_linear t * amplitude_linear t) (Fin 0) taps3;
          meanDelay =
            foldl (\<lambda>s t. s + excessDelay_ns t * amplitude_linear t * amplitude_linear t) (Fin 0)
              taps3 / totalPower;
          meanDelaySq =
            foldl (\<lambda>s t. s + excessDelay_ns t * excessDelay_ns t * amplitude_linear t
                               * amplitude_linear t) (Fin 0) taps3 / totalPower;
          rmsDelaySpread = Math_sqrt (Math_max (Fin 0) (meanDelaySq - meanDelay * meanDelay));
          coherenceBandwidth =
            (if Fin 0.001 < rmsDelaySpread then Fin 1000.0 / (Fin 5.0 * rmsDelaySpread)
             else Fin 99999)
      in \<lparr>taps = taps3, rmsDelaySpread_ns = rmsDelaySpread,
          coherenceBandwidth_MHz = coherenceBandwidth, absoluteFspl = absoluteFspl,
          totalAtmLoss = totalAtmLoss\<rparr>)"

section \<open>Channel time series\<close>








subsection \<open>The instants of the loop and the frames it pushes\<close>




definition lp_demo :: link_params where
  "lp_demo = \<lparr>freq = Some (Fin 12), rainRate = Some (Fin 5), elevation = None,
     env = Some ''suburban'', tec = Some (Fin 50), xpdAnt = None, correctionFactor = None,
     slantRange = None, hpbw = None, simTime = None, bandwidth = Some (Fin 400),
     gasAttenOffset_dB = None, scatterPowerOffset_dB = None, eirp = Some (Fin 60),
     gRx = Some (Fin 42), tRx = Some (Fin 150), isPhasedArray = False,
     disableFastFading = False\<rparr>"

section \<open>The module and what surrounds it\<close>

text \<open>
  Beside its arguments an exported function can read the variables of the module and
  the clock. The variables of the module are the constants \<^verbatim>\<open>RAIN_COEFFS\<close> and \<^verbatim>\<open>C_M_S\<close>,
  which nothing assigns to and no export hands out, and the array \<^verbatim>\<open>CALIB_PARAM_DEFS\<close>,
  which \<^verbatim>\<open>getCalibParamDefs\<close> returns itself and not a copy of, so that a caller can change
  its entries between two calls. A \<open>world\<close> is what a call can find beside its
  arguments: the reading of the clock and the contents of that array.
\<close>

record world =
  clock :: instant
  calibParamDefs :: "calib_param_def list"

definition getCalibParamDefs :: "world \<Rightarrow> calib_param_def list" where
  "getCalibParamDefs w = calibParamDefs w"

text \<open>
  A call of one of the four core operations, and what it returns. \<open>call\<close> runs a call
  in a world and gives the result and the world that the call leaves: each operation
  is passed the parts of the world that its source reads, \<^verbatim>\<open>new Date()\<close> and
  \<^verbatim>\<open>CALIB_PARAM_DEFS\<close> in \<^verbatim>\<open>calibrateModel\<close> and nothing in the others, and none of them
  assigns to the array or its entries.
\<close>

datatype core_call =
  CalculateLinkBudget link_params
  | ComputeCIR link_params
  | CalculateMIMOCapacity jsnum jsnum
  | CalibrateModel "measurement list option" link_params "ref_satellite option"

datatype core_result =
  LinkBudget link_budget
  | ImpulseResponse cir
  | Capacity mimo_capacity
  | Profile calibration_profile

definition call :: "world \<Rightarrow> core_call \<Rightarrow> core_result \<times> world" where
  "call w c =
     (case c of
        CalculateLinkBudget p \<Rightarrow> (LinkBudget (calculateLinkBudget p), w)
      | ComputeCIR p \<Rightarrow> (ImpulseResponse (computeCIR p), w)
      | CalculateMIMOCapacity snrDb xpdDb \<Rightarrow> (Capacity (calculateMIMOCapacity snrDb xpdDb), w)
      | CalibrateModel measurements linkParams refSat \<Rightarrow>
          (Profile (calibrateModel_in (calibParamDefs w) (clock w) measurements linkParams
                      refSat), w))"

text \<open>A result with the timestamp of a profile blanked.\<close>

definition forget_timestamp :: "core_result \<Rightarrow> core_result" where
  "forget_timestamp r =
     (case r of Profile prof \<Rightarrow> Profile (prof\<lparr>timestamp := None\<rparr>) | _ \<Rightarrow> r)"

section \<open>Concrete inputs\<close>

text \<open>
  The refraction correction that \<^verbatim>\<open>calculateLinkBudget\<close> computes for every elevation at
  or below zero, and two parameter objects whose elevation is its negative, so that
  the apparent elevation is exactly zero. In JavaScript the elevation is
  \<^verbatim>\<open>-(1.02 / Math.tan((10.3 / 5.11) * Math.PI / 180) / 60)\<close>, about -0.483 degrees.
\<close>

definition refr0 :: real where
  "refr0 = 1.02 / tan ((10.3 / 5.11) * pi / 180) / 60"

definition p_horizon :: link_params where
  "p_horizon = \<lparr>freq = Some (Fin 12), rainRate = Some (Fin 0), elevation = Some (Fin (- refr0)),
     env = Some ''rural'', tec = None, xpdAnt = None, correctionFactor = None, slantRange = None,
     hpbw = None, simTime = None, bandwidth = None, gasAttenOffset_dB = None,
     scatterPowerOffset_dB = None, eirp = None, gRx = None, tRx = None,
     isPhasedArray = False, disableFastFading = False\<rparr>"

definition p_vacuum_horizon :: link_params where
  "p_vacuum_horizon = \<lparr>freq = Some (Fin 30), rainRate = Some (Fin 0),
     elevation = Some (Fin (- refr0)), env = Some ''suburban'', tec = Some (Fin 0),
     xpdAnt = None, correctionFactor = None, slantRange = None, hpbw = Some (Fin 0),
     simTime = None, bandwidth = None, gasAttenOffset_dB = None,
     scatterPowerOffset_dB = None, eirp = None, gRx = None, tRx = None,
     isPhasedArray = False, disableFastFading = False\<rparr>"

text \<open>An L-band link at the zenith whose electron content is given as 0.\<close>

definition p_tec0 :: link_params where
  "p_tec0 = \<lparr>freq = Some (Fin 1), rainRate = None, elevation = Some (Fin 90),
     env = Some ''rural'', tec = Some (Fin 0), xpdAnt = None, correctionFactor = None,
     slantRange = Some (Fin 35786), hpbw = None, simTime = None, bandwidth = None,
     gasAttenOffset_dB = None, scatterPowerOffset_dB = None, eirp = None, gRx = None,
     tRx = None, isPhasedArray = False, disableFastFading = False\<rparr>"


text \<open>
  The parameter table after a caller has run \<^verbatim>\<open>getCalibParamDefs()[0].defaultVal = 2\<close>.
\<close>

definition table_demo :: "calib_param_def list" where
  "table_demo = CALIB_PARAM_DEFS[0 := (CALIB_PARAM_DEFS ! 0)\<lparr>defaultVal := Fin 2\<rparr>]"

subsection \<open>A calibration run with a zero system temperature\<close>

text \<open>
  The quantities of the link budget at an elevation of 30 degrees, a frequency of
  30 GHz and a rain rate of 1 mm/h: the argument of the tangent, the refraction
  correction, the sine of the apparent elevation, the rain attenuation for a unit
  correction factor (\<open>A0\<close>), the gas and cloud attenuation (\<open>B0\<close>), and the sky noise
  temperature as a function of the atmospheric loss.
\<close>

definition theta30 :: real where
  "theta30 = (30 + 10.3 / (30 + 5.11)) * pi / 180"

definition refr30 :: real where
  "refr30 = 1.02 / tan theta30 / 60"

definition s30 :: real where
  "s30 = sin ((30 + refr30) * pi / 180)"

definition A0 :: real where
  "A0 = 0.187 * ((3 / s30) * (1 / (1 + 0.045 * (3 / s30))))"

definition B0 :: real where
  "B0 = 0.3 / s30 + 0.5 * (0.0002 * 30 powr 1.95) / s30"

definition tsky_of :: "real \<Rightarrow> real" where
  "tsky_of L = 290 * (1 - 10 powr (- L / 10))"

text \<open>
  A calibration run: one measurement of C/N0 at 30 degrees and 1 mm/h, and link
  parameters whose receiver temperature is \<^verbatim>\<open>-(3 + T)\<close>, where \<^verbatim>\<open>T\<close> is the sky noise
  temperature that \<^verbatim>\<open>calculateLinkBudget\<close> returns for these conditions (\<open>p_probe\<close>), so
  that the system temperature of the first simulation is exactly zero. \<open>cp_nan\<close> is
  the parameter map that the first iteration leaves.
\<close>

definition m_cal :: measurement where
  "m_cal = \<lparr>m_elevation = Some (Fin 30), m_rainRate = Some (Fin 1),
     measuredCN0_dB = Some (Fin 0), measuredRSSI_dBm = None, measuredXPD_dB = None,
     measuredAttenuation_dB = None, measuredLoss = None\<rparr>"

definition p_probe :: link_params where
  "p_probe = \<lparr>freq = Some (Fin 30), rainRate = Some (Fin 1), elevation = Some (Fin 30),
     env = Some ''rural'', tec = None, xpdAnt = None, correctionFactor = None,
     slantRange = None, hpbw = None, simTime = None, bandwidth = None,
     gasAttenOffset_dB = None, scatterPowerOffset_dB = None, eirp = None, gRx = None,
     tRx = None, isPhasedArray = False, disableFastFading = False\<rparr>"

definition lp_cal :: link_params where
  "lp_cal = \<lparr>freq = Some (Fin 30), rainRate = None, elevation = None,
     env = Some ''rural'', tec = None, xpdAnt = None, correctionFactor = None,
     slantRange = None, hpbw = None, simTime = None, bandwidth = None,
     gasAttenOffset_dB = None, scatterPowerOffset_dB = None, eirp = None, gRx = None,
     tRx = Some (- (Fin 3 + tSky (calculateLinkBudget p_probe))),
     isPhasedArray = False, disableFastFading = False\<rparr>"

definition T0 :: real where
  "T0 = tsky_of (A0 + B0)"

definition cp_nan :: "string \<rightharpoonup> jsnum" where
  "cp_nan = [''correctionFactor'' \<mapsto> NaN, ''gasAttenOffset_dB'' \<mapsto> Fin 0,
             ''scatterPowerOffset_dB'' \<mapsto> Fin 0, ''eirpOffset_dB'' \<mapsto> Fin 0,
             ''systemNoiseOffset_K'' \<mapsto> Fin 0]"

text \<open>
  Every calibration parameter is present and is \<open>NaN\<close> or within the bounds of its
  definition.
\<close>

definition params_ok :: "(string \<rightharpoonup> jsnum) \<Rightarrow> bool" where
  "params_ok cp =
     list_all (\<lambda>d. case cp (key d) of
                       None \<Rightarrow> False
                     | Some v \<Rightarrow> v = NaN \<or> (minVal d \<le> v \<and> v \<le> maxVal d))
       CALIB_PARAM_DEFS"

section \<open>Properties\<close>

subsection \<open>The operations on the parameter table as the module defines it\<close>

text \<open>
  The equations that the operations satisfy at the contents \<open>CALIB_PARAM_DEFS\<close> of the
  table: those of their definitions, with the table fixed.
\<close>

lemmas table_defs = default_params_def createDefaultCalibration_def nParams_def
  jacobian_col_def find_maxRow_def eliminate_row_def eliminate_col_def back_substitute_def
  solve_normal_equations_def solve_step_def update_param_def gn_iteration_def gn_loop_def
  calibrateModel_def

lemma default_params_eq:
  "default_params = foldl (\<lambda>m d. m(key d \<mapsto> defaultVal d)) Map.empty CALIB_PARAM_DEFS"
  by (simp only: table_defs default_params_in_def)

lemma createDefaultCalibration_eq:
  "createDefaultCalibration =
     \<lparr>calibrated = False, timestamp = None, dataPointCount = 0, residualRMS = Fin 0,
      refSatellite = None, params = default_params\<rparr>"
  by (simp only: table_defs createDefaultCalibration_in_def)

lemma nParams_eq:
  "nParams = length CALIB_PARAM_DEFS"
  by (simp only: table_defs nParams_in_def)

lemma jacobian_col_eq:
  "jacobian_col measurements effectiveParams calibParams residuals p =
     (let d = CALIB_PARAM_DEFS ! p;
          delta = Math_max (step d * Fin 0.1) (Fin 0.000001);
          savedVal = num (calibParams (key d));
          rPlus = computeResiduals measurements effectiveParams
                    (calibParams(key d \<mapsto> savedVal + delta))
      in map (\<lambda>r. (rPlus ! r - residuals ! r) / delta) [0..<length residuals])"
  by (simp only: table_defs jacobian_col_in_def)

lemma find_maxRow_eq:
  "find_maxRow A col =
     foldl (\<lambda>maxRow row.
              if Math_abs (A ! maxRow ! col) < Math_abs (A ! row ! col) then row else maxRow)
       col [col + 1..<nParams]"
  by (simp only: table_defs find_maxRow_in_def)

lemma eliminate_row_eq:
  "eliminate_row col pivot Ab row =
     (let A = fst Ab; b = snd Ab;
          factor = A ! row ! col / pivot;
          newRow = foldl (\<lambda>rw j. rw[j := rw ! j - factor * A ! col ! j]) (A ! row)
                     [col..<nParams]
      in (A[row := newRow], b[row := b ! row - factor * b ! col]))"
  by (simp only: table_defs eliminate_row_in_def)

lemma eliminate_col_eq:
  "eliminate_col Ab col =
     (let maxRow = find_maxRow (fst Ab) col;
          A = swap (fst Ab) col maxRow;
          b = swap (snd Ab) col maxRow;
          pivot = A ! col ! col
      in if Math_abs pivot < Fin 0.000000000001 then (A, b)
         else foldl (eliminate_row col pivot) (A, b) [col + 1..<nParams])"
  by (simp only: table_defs eliminate_col_in_def)

lemma back_substitute_eq:
  "back_substitute A b =
     foldl (\<lambda>dp i.
              let sum = foldl (\<lambda>sum j. sum - A ! i ! j * dp ! j) (b ! i) [i + 1..<nParams]
              in dp[i := (if Fin 0.000000000001 < Math_abs (A ! i ! i)
                          then sum / (A ! i ! i) else Fin 0)])
       (replicate nParams (Fin 0)) (rev [0..<nParams])"
  by (simp only: table_defs back_substitute_in_def)

lemma solve_normal_equations_eq:
  "solve_normal_equations J residuals =
     (let nResiduals = length residuals;
          JtJ0 = map (\<lambda>i. map (\<lambda>j. dot (J ! i) (J ! j) nResiduals) [0..<nParams])
                   [0..<nParams];
          JtR = map (\<lambda>i. dot (J ! i) residuals nResiduals) [0..<nParams];
          JtJ = map (\<lambda>i. (JtJ0 ! i)
                              [i := JtJ0 ! i ! i
                                      + dampingFactor * (JtJ0 ! i ! i + Fin 0.00000001)])
                  [0..<nParams];
          Ab = foldl eliminate_col (JtJ, JtR) [0..<nParams]
      in back_substitute (fst Ab) (snd Ab))"
  by (simp only: table_defs solve_normal_equations_in_def)

lemma solve_step_eq:
  "solve_step measurements effectiveParams calibParams =
     (let residuals = computeResiduals measurements effectiveParams calibParams;
          J = map (jacobian_col measurements effectiveParams calibParams residuals)
                [0..<nParams]
      in solve_normal_equations J residuals)"
  by (simp only: table_defs solve_step_in_def)

lemma update_param_eq:
  "update_param dp st p =
     (let calibParams = fst st; maxStep = snd st;
          d = CALIB_PARAM_DEFS ! p;
          newVal = Math_max (minVal d) (Math_min (maxVal d) (num (calibParams (key d)) - dp ! p))
      in (calibParams(key d \<mapsto> newVal),
          Math_max maxStep (Math_abs (newVal - num (calibParams (key d))))))"
  by (simp only: table_defs update_param_in_def)

lemma gn_iteration_eq:
  "gn_iteration measurements effectiveParams calibParams =
     foldl (update_param (solve_step measurements effectiveParams calibParams))
       (calibParams, Fin 0) [0..<nParams]"
  by (simp only: table_defs gn_iteration_in_def)

lemma calibrateModel_eq:
  "calibrateModel now measurements linkParams refSat =
     (case measurements of
        None \<Rightarrow> createDefaultCalibration
      | Some ms \<Rightarrow>
          if length ms = 0 then createDefaultCalibration
          else
            (let effectiveParams =
                   (case refSat of
                      Some sat \<Rightarrow> linkParams\<lparr>freq := sat_freq sat, eirp := sat_eirp sat\<rparr>
                    | None \<Rightarrow> linkParams);
                 calibParams = gn_loop maxIterations ms effectiveParams default_params;
                 finalResiduals = computeResiduals ms effectiveParams calibParams;
                 rmsResidual =
                   Math_sqrt (foldl (\<lambda>s r. s + r * r) (Fin 0) finalResiduals
                              / Math_max (Fin 1) (Fin (real (length finalResiduals))))
             in \<lparr>calibrated = True, timestamp = Some now, dataPointCount = length ms,
                 residualRMS = rmsResidual,
                 refSatellite = (case refSat of Some sat \<Rightarrow> satName sat | None \<Rightarrow> None),
                 params = calibParams\<rparr>))"
  by (simp only: table_defs calibrateModel_in_def)

lemma gn_loop_simps [simp]:
  "gn_loop 0 measurements effectiveParams calibParams = calibParams"
  "gn_loop (Suc n) measurements effectiveParams calibParams =
     (let st = gn_iteration measurements effectiveParams calibParams
      in if snd st < convergenceThreshold then fst st
         else gn_loop n measurements effectiveParams (fst st))"
  by (simp_all only: table_defs gn_loop_in.simps)

subsection \<open>Powers within the range of the doubles\<close>

lemma thresholds:
  "(10::real) ^ 300 < overflow_threshold" "underflow_threshold < 1 / (10::real) ^ 300"
  "overflow_threshold \<le> (10::real) ^ 309" "0 < underflow_threshold" "underflow_threshold < 1"
  "1 < overflow_threshold" "underflow_threshold < 1 / (10::real) ^ 301"
  "1 + (10::real) ^ 300 < overflow_threshold"
  by (simp_all add: overflow_threshold_def underflow_threshold_def field_simps)

lemma to_range_Fin:
  "underflow_threshold < r \<Longrightarrow> r < overflow_threshold \<Longrightarrow> to_range r = Fin r"
  using thresholds(4) by (simp add: to_range_def)

lemma Math_pow_pos:
  "0 < a \<Longrightarrow> underflow_threshold < a powr b \<Longrightarrow> a powr b < overflow_threshold
     \<Longrightarrow> Math_pow (Fin a) (Fin b) = Fin (a powr b)"
  by (simp add: Math_pow.simps to_range_Fin)

lemma pow10_bounds:
  assumes "\<bar>b\<bar> \<le> (300::real)"
  shows "underflow_threshold < 10 powr b" "10 powr b < overflow_threshold"
proof -
  have "10 powr b \<le> (10::real) powr 300"
    using assms by (intro powr_mono) auto
  also have "(10::real) powr 300 = 10 ^ 300"
    by (simp add: powr_numeral)
  finally show "10 powr b < overflow_threshold"
    using thresholds(1) by linarith
  have "(10::real) powr (- 300) \<le> 10 powr b"
    using assms by (intro powr_mono) auto
  moreover have "(10::real) powr (- 300) = 1 / 10 ^ 300"
    by (simp add: powr_minus powr_numeral field_simps)
  ultimately show "underflow_threshold < 10 powr b"
    using thresholds(2) by linarith
qed

lemma powr_bounds:
  assumes "1 \<le> a" "a \<le> (1000::real)" "0 \<le> b" "b \<le> 100"
  shows "underflow_threshold < a powr b" "a powr b < overflow_threshold"
proof -
  have "a powr b \<le> 1000 powr b"
    using assms by (intro powr_mono2) auto
  also have "\<dots> \<le> 1000 powr 100"
    using assms by (intro powr_mono) auto
  also have "(1000::real) powr 100 = 10 ^ 300"
    by (simp add: powr_numeral)
  finally show "a powr b < overflow_threshold"
    using thresholds(1) by linarith
  have "1 \<le> a powr b"
    using assms by (simp add: ge_one_powr_ge_zero)
  then show "underflow_threshold < a powr b"
    using thresholds(5) by linarith
qed

lemma Math_pow_10:
  "\<bar>b\<bar> \<le> 300 \<Longrightarrow> Math_pow (Fin 10) (Fin b) = Fin (10 powr b)"
  by (simp add: Math_pow_pos pow10_bounds)

lemma Math_pow_ge1:
  "1 \<le> a \<Longrightarrow> a \<le> 1000 \<Longrightarrow> 0 \<le> b \<Longrightarrow> b \<le> 100
     \<Longrightarrow> Math_pow (Fin a) (Fin b) = Fin (a powr b)"
  by (simp add: Math_pow_pos powr_bounds)

lemma Math_pow_finite:
  assumes "0 < a" "a powr b < overflow_threshold"
  shows "finite_num (Math_pow (Fin a) (Fin b))"
proof -
  have "- overflow_threshold < a powr b"
    using thresholds(6) powr_ge_zero[of a b] by linarith
  then show ?thesis
    using assms by (simp add: Math_pow.simps to_range_def finite_num_def)
qed


subsection \<open>The capacity formula\<close>


text \<open>
  For \<open>snrDb\<close> and \<open>xpdDb\<close> between -1500 and 1500 the two powers of ten lie between
  \<open>10\<^sup>-\<^sup>1\<^sup>5\<^sup>0\<close> and \<open>10\<^sup>1\<^sup>5\<^sup>0\<close>, and every value that the function computes from them
  before the logarithms (\<open>pSig\<close>, the product with the crosstalk, the denominator,
  \<open>sinrSimple\<close> and the arguments of the two logarithms) is within the range of the
  doubles: \<open>to_range\<close> leaves it as it is.
\<close>

lemma to_range_between:
  assumes "1 / 10 ^ 301 \<le> r" "r \<le> 10 ^ 300"
  shows "to_range r = Fin r"
  using assms thresholds(1,7) by (intro to_range_Fin) linarith+

lemma pow10_150:
  assumes "\<bar>a\<bar> \<le> (150::real)"
  shows "1 / 10 ^ 150 \<le> 10 powr a" "10 powr a \<le> 10 ^ 150"
proof -
  have "10 powr a \<le> (10::real) powr 150"
    using assms by (intro powr_mono) auto
  then show "10 powr a \<le> 10 ^ 150"
    by (simp add: powr_numeral)
  have "(10::real) powr (- 150) \<le> 10 powr a"
    using assms by (intro powr_mono) auto
  moreover have "(10::real) powr (- 150) = 1 / 10 ^ 150"
    by (simp add: powr_minus powr_numeral field_simps)
  ultimately show "1 / 10 ^ 150 \<le> 10 powr a"
    by simp
qed

lemma capacity_intermediates:
  fixes S C :: real
  assumes S: "1 / 10 ^ 150 \<le> S" "S \<le> 10 ^ 150" and C: "1 / 10 ^ 150 \<le> C" "C \<le> 10 ^ 150"
  defines "P \<equiv> S / 2"
  defines "D \<equiv> 1 + P * C"
  defines "Q \<equiv> P / D"
  shows "to_range P = Fin P" "to_range (P * C) = Fin (P * C)" "to_range D = Fin D"
    "to_range Q = Fin Q" "to_range (1 + Q) = Fin (1 + Q)" "to_range (1 + S) = Fin (1 + S)"
proof -
  have small: "(0::real) < 1 / 10 ^ 150"
    by simp
  have S0: "0 < S" and C0: "0 < C"
    using S(1) C(1) small by linarith+
  have P: "1 / 10 ^ 151 \<le> P" "P \<le> 10 ^ 150" "0 < P"
    using S S0 by (simp_all add: P_def)
  have PC1: "P * C \<le> 10 ^ 150 * 10 ^ 150"
    using P C C0 by (intro mult_mono) simp_all
  have PC2: "(1 / 10 ^ 151) * (1 / 10 ^ 150) \<le> P * C"
    using P C by (intro mult_mono) simp_all
  have PC0: "0 < P * C"
    using P(3) C0 by simp
  have D: "1 \<le> D" "D \<le> 1 + 10 ^ 300"
    using PC0 PC1 by (simp_all add: D_def)
  have Q0: "0 < Q"
    using P(3) D(1) by (simp add: Q_def)
  have Q1: "Q \<le> P"
    using P(3) D(1) by (simp add: Q_def field_simps)
  have Q2: "1 / 10 ^ 152 \<le> Q"
  proof (cases "P * C \<le> 1")
    case True
    then have "D \<le> 2" by (simp add: D_def)
    then have "P / 2 \<le> P / D"
      using P(3) D(1) by (intro divide_left_mono) simp_all
    moreover have "1 / 10 ^ 152 \<le> P / 2"
      using P(1) by simp
    ultimately show ?thesis
      unfolding Q_def by (rule order_trans[rotated])
  next
    case False
    then have "1 \<le> P * C" by simp
    then have "D \<le> 2 * (P * C)" unfolding D_def by linarith
    then have "P / (2 * (P * C)) \<le> P / D"
      using P(3) D(1) PC0 by (intro divide_left_mono) simp_all
    moreover have "P / (2 * (P * C)) = 1 / (2 * C)"
      using P(3) by simp
    ultimately have "1 / (2 * C) \<le> Q"
      by (simp only: Q_def)
    moreover have "1 / (2 * 10 ^ 150) \<le> 1 / (2 * C)"
      using C C0 by (intro divide_left_mono) simp_all
    moreover have "(1::real) / 10 ^ 152 \<le> 1 / (2 * 10 ^ 150)"
      by simp
    ultimately show ?thesis
      by linarith
  qed
  have big: "(10::real) ^ 150 \<le> 10 ^ 300"
    by simp
  show "to_range P = Fin P"
    using P by (intro to_range_between) simp_all
  show "to_range (P * C) = Fin (P * C)"
    using PC1 PC2 by (intro to_range_between) simp_all
  show "to_range D = Fin D"
    using D thresholds(5,8) by (intro to_range_Fin) linarith+
  show "to_range Q = Fin Q"
    using Q1 Q2 P(2) by (intro to_range_between) simp_all
  show "to_range (1 + Q) = Fin (1 + Q)"
    using Q0 Q1 P(2) big thresholds(5,8) by (intro to_range_Fin) linarith+
  show "to_range (1 + S) = Fin (1 + S)"
    using S0 S(2) big thresholds(5,8) by (intro to_range_Fin) linarith+
qed

lemma calculateMIMOCapacity_in_range:
  assumes "\<bar>snrDb\<bar> \<le> 1500" "\<bar>xpdDb\<bar> \<le> 1500"
  defines "S \<equiv> 10 powr (snrDb / 10)" and "C \<equiv> 10 powr (- xpdDb / 10)"
  shows "to_range (S / 2) = Fin (S / 2)" "to_range (S / 2 * C) = Fin (S / 2 * C)"
    "to_range (1 + S / 2 * C) = Fin (1 + S / 2 * C)"
    "to_range (S / 2 / (1 + S / 2 * C)) = Fin (S / 2 / (1 + S / 2 * C))"
    "to_range (1 + S / 2 / (1 + S / 2 * C)) = Fin (1 + S / 2 / (1 + S / 2 * C))"
    "to_range (1 + S) = Fin (1 + S)"
proof -
  have "\<bar>snrDb / 10\<bar> \<le> 150" "\<bar>- xpdDb / 10\<bar> \<le> 150"
    using assms(1,2) by simp_all
  then have "1 / 10 ^ 150 \<le> S" "S \<le> 10 ^ 150" "1 / 10 ^ 150 \<le> C" "C \<le> 10 ^ 150"
    unfolding S_def C_def by (simp_all only: pow10_150)
  then show "to_range (S / 2) = Fin (S / 2)" "to_range (S / 2 * C) = Fin (S / 2 * C)"
    "to_range (1 + S / 2 * C) = Fin (1 + S / 2 * C)"
    "to_range (S / 2 / (1 + S / 2 * C)) = Fin (S / 2 / (1 + S / 2 * C))"
    "to_range (1 + S / 2 / (1 + S / 2 * C)) = Fin (1 + S / 2 / (1 + S / 2 * C))"
    "to_range (1 + S) = Fin (1 + S)"
    by (rule capacity_intermediates)+
qed



subsection \<open>Helper facts on numbers and projections of the link budget\<close>

lemma NaN_arith [simp]:
  "x + NaN = NaN" "NaN + x = NaN" "x * NaN = NaN" "NaN * x = NaN"
  "x / NaN = NaN" "NaN / x = NaN" "x - NaN = NaN" "NaN - x = NaN"
  by (cases x; simp add: minus_jsnum_def)+

lemma Fin_minus [simp]: "Fin a - Fin b = Fin (a - b)"
  by (simp add: minus_jsnum_def)

lemma or_else_simps:
  "or_else None d = d"
  "or_else (Some (Fin 0)) d = d"
  "or_else (Some NaN) d = d"
  "a \<noteq> 0 \<Longrightarrow> or_else (Some (Fin a)) d = Fin a"
  by (simp_all add: or_else_def truthy_def)

lemma Math_tan_Fin: "cos a \<noteq> 0 \<Longrightarrow> Math_tan (Fin a) = Fin (tan a)"
  by (simp add: tan_def)

lemma apparentElevation_eq:
  "apparentElevation (calculateLinkBudget p) =
     (let e = num (elevation p); t = Math_max (Fin 0) e
      in e + Fin 1.02 / Math_tan ((t + Fin 10.3 / (t + Fin 5.11)) * Math_PI / Fin 180) / Fin 60)"
  by (simp add: calculateLinkBudget_def Let_def)

lemma scintillationSigma_eq:
  "scintillationSigma (calculateLinkBudget p) =
     (let fr = num (freq p);
          sinElev = Math_max (Fin 0.01)
                      (Math_sin (apparentElevation (calculateLinkBudget p) * Math_PI / Fin 180.0));
          sigmaTropo = Fin 0.025 * Math_pow fr (Fin 0.58) / Math_pow sinElev (Fin 1.2);
          sigmaIono = (or_else (tec p) (Fin 50) / Fin 100.0)
                        * (Fin 2.0 / Math_pow fr (Fin 1.5)) / Math_pow sinElev (Fin 1.2)
      in Math_sqrt (sigmaTropo * sigmaTropo + sigmaIono * sigmaIono))"
  by (simp add: calculateLinkBudget_def Let_def)

lemma x_le_tan:
  fixes x :: real
  assumes "0 \<le> x" "x < pi / 2"
  shows "x \<le> tan x"
proof -
  let ?f = "\<lambda>u. tan u - u"
  have d: "\<exists>y. (?f has_real_derivative y) (at u) \<and> 0 \<le> y" if "0 \<le> u" "u \<le> x" for u
  proof -
    have c: "0 < cos u"
      using that assms by (intro cos_gt_zero_pi) linarith+
    then have "(cos u)\<^sup>2 \<le> 1" "0 < (cos u)\<^sup>2"
      by (simp_all add: power_le_one)
    then have "0 \<le> inverse ((cos u)\<^sup>2) - 1"
      by (simp add: one_le_inverse)
    moreover have "(?f has_real_derivative inverse ((cos u)\<^sup>2) - 1) (at u)"
      using c by (auto intro!: derivative_eq_intros)
    ultimately show ?thesis by blast
  qed
  have "?f 0 \<le> ?f x"
    by (rule DERIV_nonneg_imp_nondecreasing[OF assms(1)]) (use d in blast)
  then show ?thesis by simp
qed

lemma attRain_eq:
  "attRain (calculateLinkBudget p) =
     (let s = Math_sin (apparentElevation (calculateLinkBudget p) * Math_PI / Fin 180);
          rc = rain_loop (num (freq p));
          gamma = fst rc * Math_pow (num (rainRate p)) (fst (snd rc))
                    * dflt (Fin 1) (correctionFactor p);
          slantPath = Fin 3 / s
      in gamma * (slantPath * (Fin 1 / (Fin 1 + Fin 0.045 * slantPath))))"
  by (simp add: calculateLinkBudget_def Let_def)

lemma attGas_eq:
  "attGas (calculateLinkBudget p) =
     attZenithGas_of (num (freq p))
       / Math_sin (apparentElevation (calculateLinkBudget p) * Math_PI / Fin 180)"
  by (simp add: calculateLinkBudget_def Let_def)

lemma lossFaraday_eq:
  "lossFaraday (calculateLinkBudget p) =
     (let s = Math_sin (apparentElevation (calculateLinkBudget p) * Math_PI / Fin 180);
          omegaDeg = (Fin 108 * dflt (Fin 50) (tec p)) / (Math_pow (num (freq p)) (Fin 2) * s);
          cosOmega = Math_abs (Math_cos ((omegaDeg * Math_PI) / Fin 180))
      in if Fin 0.001 < cosOmega then - Fin 20 * Math_log10 cosOmega else Fin 60)"
  by (simp add: calculateLinkBudget_def Let_def)

lemma groupDelayNs_eq:
  "groupDelayNs (calculateLinkBudget p) =
     (let fr = num (freq p);
          sinElev = Math_max (Fin 0.01)
                      (Math_sin (apparentElevation (calculateLinkBudget p) * Math_PI / Fin 180))
      in (Fin 134 * dflt (Fin 50) (tec p)) / (fr * fr * sinElev))"
  by (simp add: calculateLinkBudget_def Let_def)

lemma attCloud_eq:
  "attCloud (calculateLinkBudget p) =
     (Fin 0.5 * (Fin 0.0002 * Math_pow (num (freq p)) (Fin 1.95)))
       / Math_sin (apparentElevation (calculateLinkBudget p) * Math_PI / Fin 180)"
  by (simp add: calculateLinkBudget_def Let_def)

lemma totalAtmosphericLoss_eq:
  "totalAtmosphericLoss (calculateLinkBudget p) =
     attRain (calculateLinkBudget p) + attGas (calculateLinkBudget p)
       + attCloud (calculateLinkBudget p) + or_else (gasAttenOffset_dB p) (Fin 0)"
  by (simp add: calculateLinkBudget_def Let_def)

lemma tSky_eq:
  "tSky (calculateLinkBudget p) =
     Fin 290 * (Fin 1 - Math_pow (Fin 10) (- totalAtmosphericLoss (calculateLinkBudget p) / Fin 10))"
  by (simp add: calculateLinkBudget_def Let_def)

lemma refractionCorrection_eq:
  "refractionCorrection (calculateLinkBudget p) =
     (let t = Math_max (Fin 0) (num (elevation p))
      in Fin 1.02 / Math_tan ((t + Fin 10.3 / (t + Fin 5.11)) * Math_PI / Fin 180) / Fin 60)"
  by (simp add: calculateLinkBudget_def Let_def)

lemma pointingLoss_eq:
  "pointingLoss (calculateLinkBudget p) =
     (if Fin 0 < dflt (Fin 2) (hpbw p)
      then Fin 12 * Math_pow (refractionCorrection (calculateLinkBudget p) / dflt (Fin 2) (hpbw p))
                      (Fin 2)
      else Fin 0)"
  by (simp add: calculateLinkBudget_def Let_def)

lemma fadeLMS_eq:
  "fadeLMS (calculateLinkBudget p) =
     (if env p = Some ''urban''
        then Fin 15 - apparentElevation (calculateLinkBudget p) * Fin 0.15
      else if env p = Some ''suburban''
        then Fin 6 - apparentElevation (calculateLinkBudget p) * Fin 0.05
      else if env p = Some ''maritime'' then Fin 0
      else Fin 0.5)"
  by (simp add: calculateLinkBudget_def Let_def)

lemma scanLoss_off: "\<not> isPhasedArray p \<Longrightarrow> scanLoss (calculateLinkBudget p) = Fin 0"
  by (simp add: calculateLinkBudget_def Let_def)

lemma multipathLoss_off:
  "env p \<noteq> Some ''maritime'' \<Longrightarrow> multipathLoss (calculateLinkBudget p) = Fin 0"
  by (simp add: calculateLinkBudget_def Let_def)

lemma theta0: "0 < (10.3 / 5.11) * pi / 180" "(10.3 / 5.11) * pi / 180 < pi / 2"
  using pi_gt_zero by simp_all

lemma tan0: "0 < tan ((10.3 / 5.11) * pi / 180)"
  by (rule tan_gt_zero[OF theta0])

lemma cos0: "cos ((10.3 / 5.11) * pi / 180) \<noteq> 0"
  using cos_gt_zero[OF theta0] by simp

lemma refr0_pos: "0 < refr0"
  unfolding refr0_def using tan0 by simp

lemma refr0_le: "refr0 \<le> 1"
proof -
  let ?th = "(10.3 / 5.11) * pi / 180 :: real"
  have "(10.3 / 5.11) * 2 / 180 \<le> ?th"
    using pi_ge_two by simp
  also have "?th \<le> tan ?th"
    using theta0 by (intro x_le_tan) simp_all
  finally have "1.02 / 60 \<le> tan ?th"
    by simp
  then have "1.02 / tan ?th \<le> 60"
    using tan0 by (simp add: field_simps)
  then show ?thesis
    unfolding refr0_def by simp
qed

lemma apparentElevation_horizon:
  assumes "elevation p = Some (Fin (- refr0))"
  shows "apparentElevation (calculateLinkBudget p) = Fin 0"
proof -
  have e: "num (elevation p) = Fin (- refr0)"
    by (simp add: assms num_def)
  have t: "Math_max (Fin 0) (Fin (- refr0)) = Fin 0"
    using refr0_pos by (simp add: Math_max_def)
  have a: "(Fin 0 + Fin 10.3 / (Fin 0 + Fin 5.11)) * Math_PI / Fin 180
             = Fin ((10.3 / 5.11) * pi / 180)"
    by (simp add: Math_PI_def)
  have r: "Fin 1.02 / Math_tan (Fin ((10.3 / 5.11) * pi / 180)) / Fin 60 = Fin refr0"
    unfolding Math_tan_Fin[OF cos0] refr0_def using tan0 by simp
  show ?thesis
    unfolding apparentElevation_eq Let_def e t a r by simp
qed

subsection \<open>Calibration profiles\<close>

text \<open>
  C10. \<open>applyCalibration\<close> returns its first argument unchanged when the profile is
  absent or has \<open>calibrated = false\<close>, whatever the raw parameters are; the default
  profile is such a profile.
\<close>

theorem applyCalibration_identity:
  "applyCalibration rawParams None = rawParams
   \<and> applyCalibration rawParams (Some (prof\<lparr>calibrated := False\<rparr>)) = rawParams
   \<and> applyCalibration rawParams (Some createDefaultCalibration) = rawParams"
  by (simp add: applyCalibration_def createDefaultCalibration_eq)

text \<open>
  C7. \<open>calibrateModel\<close> on a missing or empty list of measurements returns the
  default profile, which has the five parameters at their identity values, is not
  calibrated, counts no data point and has residual 0. The function is total, so no
  input makes it throw.
\<close>

theorem calibrateModel_empty:
  "calibrateModel now None linkParams refSat = createDefaultCalibration
   \<and> calibrateModel now (Some []) linkParams refSat = createDefaultCalibration
   \<and> createDefaultCalibration =
       \<lparr>calibrated = False, timestamp = None, dataPointCount = 0, residualRMS = Fin 0,
        refSatellite = None,
        params = [''correctionFactor'' \<mapsto> Fin 1, ''gasAttenOffset_dB'' \<mapsto> Fin 0,
                  ''scatterPowerOffset_dB'' \<mapsto> Fin 0, ''eirpOffset_dB'' \<mapsto> Fin 0,
                  ''systemNoiseOffset_K'' \<mapsto> Fin 0]\<rparr>"
  by (simp add: calibrateModel_eq createDefaultCalibration_eq default_params_eq
      CALIB_PARAM_DEFS_def)

subsection \<open>The falsy default of the electron content\<close>

lemma upt_2: "[0..<Suc (Suc 0)] = [0, Suc 0]"
  by (simp add: upt_rec)

lemma computeCIR_labels:
  "map label (taps (computeCIR p)) =
     LOS # (if env p = Some ''maritime'' then [SeaReflection] else [])
       @ (if env p = Some ''urban'' then [BuildingScatterNear, BuildingScatterFar]
          else if env p = Some ''suburban'' then [VegetationScatterNear, VegetationScatterFar]
          else [])
       @ (if Fin 0.01 < cir_dispersionNs (tec p) (num (freq p))
                          (Math_sin (Math_max (Fin 0.1) (num (elevation p)) * Math_PI / Fin 180))
          then [IonosphericDispersion] else [])"
  by (simp add: computeCIR_def Let_def scatterParams_def push_scatter_def upt_2)

lemma cir_dispersionNs_tec0:
  "cir_dispersionNs (Some (Fin 0)) fr s = cir_dispersionNs (Some (Fin 50)) fr s"
  by (simp add: cir_dispersionNs_def dflt_def or_else_simps)

lemma computeCIR_labels_tec0:
  "map label (taps (computeCIR p_tec0)) = [LOS, IonosphericDispersion]"
proof -
  have s: "Math_sin (Math_max (Fin 0.1) (Fin 90) * Math_PI / Fin 180) = Fin 1"
    by (simp add: Math_max_def Math_PI_def)
  have "cir_dispersionNs (Some (Fin 0)) (Fin 1) (Fin 1) = Fin 5360"
    by (simp add: cir_dispersionNs_def dflt_def or_else_simps Math_pow_ge1)
  then show ?thesis
    unfolding computeCIR_labels by (simp add: p_tec0_def num_def s)
qed

lemma computeCIR_tec0:
  "computeCIR (p\<lparr>tec := Some (Fin 0)\<rparr>) = computeCIR (p\<lparr>tec := Some (Fin 50)\<rparr>)"
proof -
  have sel: "freq (p\<lparr>tec := Some (Fin 0)\<rparr>) = freq (p\<lparr>tec := Some (Fin 50)\<rparr>)"
    "elevation (p\<lparr>tec := Some (Fin 0)\<rparr>) = elevation (p\<lparr>tec := Some (Fin 50)\<rparr>)"
    "slantRange (p\<lparr>tec := Some (Fin 0)\<rparr>) = slantRange (p\<lparr>tec := Some (Fin 50)\<rparr>)"
    "env (p\<lparr>tec := Some (Fin 0)\<rparr>) = env (p\<lparr>tec := Some (Fin 50)\<rparr>)"
    "rainRate (p\<lparr>tec := Some (Fin 0)\<rparr>) = rainRate (p\<lparr>tec := Some (Fin 50)\<rparr>)"
    "correctionFactor (p\<lparr>tec := Some (Fin 0)\<rparr>)
       = correctionFactor (p\<lparr>tec := Some (Fin 50)\<rparr>)"
    "simTime (p\<lparr>tec := Some (Fin 0)\<rparr>) = simTime (p\<lparr>tec := Some (Fin 50)\<rparr>)"
    by simp_all
  have t: "tec (p\<lparr>tec := Some (Fin 0)\<rparr>) = Some (Fin 0)"
    "tec (p\<lparr>tec := Some (Fin 50)\<rparr>) = Some (Fin 50)"
    by simp_all
  show ?thesis
    unfolding computeCIR_def sel t cir_dispersionNs_tec0 ..
qed

lemma scintillationSigma_tec0:
  "scintillationSigma (calculateLinkBudget (p\<lparr>tec := Some (Fin 0)\<rparr>))
     = scintillationSigma (calculateLinkBudget (p\<lparr>tec := Some (Fin 50)\<rparr>))"
  unfolding scintillationSigma_eq apparentElevation_eq
  by (simp add: or_else_simps)

text \<open>
  C9. With \<open>tec = 0\<close> the impulse response is the one of \<open>tec = 50\<close>, tap for tap:
  \<open>computeCIR\<close> replaces the falsy 0 by 50 in the dispersion, so the ionospheric tap
  is present exactly when it is for 50 TECU; at 1 GHz and the zenith it is present
  although the electron content is 0. The scintillation sigma of \<open>calculateLinkBudget\<close>
  takes the same replacement.
\<close>

theorem tec_zero_is_tec_50:
  "computeCIR (p\<lparr>tec := Some (Fin 0)\<rparr>) = computeCIR (p\<lparr>tec := Some (Fin 50)\<rparr>)
   \<and> map label (taps (computeCIR p_tec0)) = [LOS, IonosphericDispersion]
   \<and> scintillationSigma (calculateLinkBudget (p\<lparr>tec := Some (Fin 0)\<rparr>))
       = scintillationSigma (calculateLinkBudget (p\<lparr>tec := Some (Fin 50)\<rparr>))"
  using computeCIR_tec0 [of p] scintillationSigma_tec0 [of p] computeCIR_labels_tec0 by simp

subsection \<open>The taps of the impulse response\<close>

lemma computeCIR_indices:
  "map index (taps (computeCIR p)) = [0..<length (taps (computeCIR p))]"
  by (simp add: computeCIR_def Let_def scatterParams_def push_scatter_def upt_2 upt_rec)

lemma computeCIR_first:
  "taps (computeCIR p) \<noteq> [] \<and> label (hd (taps (computeCIR p))) = LOS
   \<and> excessDelay_ns (hd (taps (computeCIR p))) = Fin 0
   \<and> phase_rad (hd (taps (computeCIR p))) = Fin 0"
  by (simp add: computeCIR_def Let_def scatterParams_def push_scatter_def upt_2)

text \<open>
  C2. For every input \<open>computeCIR\<close> returns at least one tap; the first tap is the
  line-of-sight tap, with excess delay 0 and phase 0; the taps after it are, in this
  order, the sea reflection (maritime), the two scatter taps (urban or suburban) and
  the ionospheric tap (dispersion above 0.01 ns), each numbered by its position. Which
  taps are present is a function of the environment and of the comparison of the
  dispersion with the threshold; the simulation time, which drives the pseudo-random
  phases, has no part in it.
\<close>

theorem computeCIR_taps:
  "taps (computeCIR p) \<noteq> []
   \<and> label (hd (taps (computeCIR p))) = LOS
   \<and> excessDelay_ns (hd (taps (computeCIR p))) = Fin 0
   \<and> phase_rad (hd (taps (computeCIR p))) = Fin 0
   \<and> map index (taps (computeCIR p)) = [0..<length (taps (computeCIR p))]
   \<and> map label (taps (computeCIR p)) =
       LOS # (if env p = Some ''maritime'' then [SeaReflection] else [])
         @ (if env p = Some ''urban'' then [BuildingScatterNear, BuildingScatterFar]
            else if env p = Some ''suburban''
              then [VegetationScatterNear, VegetationScatterFar]
            else [])
         @ (if Fin 0.01 < cir_dispersionNs (tec p) (num (freq p))
                            (Math_sin (Math_max (Fin 0.1) (num (elevation p)) * Math_PI / Fin 180))
            then [IonosphericDispersion] else [])
   \<and> map label (taps (computeCIR (p\<lparr>simTime := s\<rparr>))) = map label (taps (computeCIR p))"
  using computeCIR_first [of p] computeCIR_indices [of p]
  by (simp add: computeCIR_labels)

subsection \<open>The frames of the time series\<close>



















subsection \<open>The link budget at an apparent elevation of zero\<close>

text \<open>
  C1. The claim is that every field of the link budget is finite for a positive
  frequency, an elevation between -90 and 90 degrees, a rain rate that is not negative
  and a positive slant range. The input \<open>p_horizon\<close> lies in that domain, and there the
  apparent elevation is 0, its sine is 0, and the divisions by the sine, which have no
  floor, give a rain attenuation that is \<open>NaN\<close> and a gas attenuation that is infinite;
  the total atmospheric loss and the sky noise temperature are \<open>NaN\<close>.
\<close>

theorem calculateLinkBudget_horizon_not_finite:
  "Fin (- 90) \<le> num (elevation p_horizon) \<and> num (elevation p_horizon) \<le> Fin 90
   \<and> Fin 0 < num (freq p_horizon) \<and> Fin 0 \<le> num (rainRate p_horizon)
   \<and> Fin 0 < dflt (Fin 35786) (slantRange p_horizon)
   \<and> apparentElevation (calculateLinkBudget p_horizon) = Fin 0
   \<and> attRain (calculateLinkBudget p_horizon) = NaN
   \<and> attGas (calculateLinkBudget p_horizon) = PInf
   \<and> totalAtmosphericLoss (calculateLinkBudget p_horizon) = NaN
   \<and> tSky (calculateLinkBudget p_horizon) = NaN"
proof -
  have a: "apparentElevation (calculateLinkBudget p_horizon) = Fin 0"
    by (rule apparentElevation_horizon) (simp add: p_horizon_def)
  have r: "attRain (calculateLinkBudget p_horizon) = NaN"
    unfolding attRain_eq Let_def a by (simp add: Math_PI_def)
  have t: "totalAtmosphericLoss (calculateLinkBudget p_horizon) = NaN"
    unfolding totalAtmosphericLoss_eq r by simp
  have "tSky (calculateLinkBudget p_horizon) = NaN"
    unfolding tSky_eq t by (simp add: Math_pow.simps)
  moreover have "attGas (calculateLinkBudget p_horizon) = PInf"
    unfolding attGas_eq a by (simp add: Math_PI_def p_horizon_def num_def attZenithGas_of_def)
  ultimately show ?thesis
    using r t
    using a refr0_pos refr0_le by (simp add: p_horizon_def num_def dflt_def)
qed

text \<open>
  C4. The claim is that with no rain and no electron content the rain attenuation,
  the Faraday loss and the group delay are exactly 0. At \<open>p_vacuum_horizon\<close>, which has
  both at 0, the same division by the sine of the apparent elevation makes the rain
  attenuation \<open>NaN\<close> and the Faraday rotation \<open>NaN\<close>, so that the Faraday loss takes its
  cap of 60 dB; the group delay, whose sine has a floor, is 0.
\<close>

theorem vacuum_baseline_at_horizon:
  "num (rainRate p_vacuum_horizon) = Fin 0 \<and> tec p_vacuum_horizon = Some (Fin 0)
   \<and> attRain (calculateLinkBudget p_vacuum_horizon) = NaN
   \<and> lossFaraday (calculateLinkBudget p_vacuum_horizon) = Fin 60
   \<and> groupDelayNs (calculateLinkBudget p_vacuum_horizon) = Fin 0"
proof -
  have a: "apparentElevation (calculateLinkBudget p_vacuum_horizon) = Fin 0"
    by (rule apparentElevation_horizon) (simp add: p_vacuum_horizon_def)
  have "attRain (calculateLinkBudget p_vacuum_horizon) = NaN"
    unfolding attRain_eq Let_def a by (simp add: Math_PI_def)
  moreover have "lossFaraday (calculateLinkBudget p_vacuum_horizon) = Fin 60"
    unfolding lossFaraday_eq Let_def a
    by (simp add: Math_PI_def p_vacuum_horizon_def num_def dflt_def Math_pow_ge1 Math_abs_def)
  moreover have "groupDelayNs (calculateLinkBudget p_vacuum_horizon) = Fin 0"
    unfolding groupDelayNs_eq Let_def a
    by (simp add: Math_PI_def p_vacuum_horizon_def num_def dflt_def Math_max_def)
  ultimately show ?thesis
    by (simp add: p_vacuum_horizon_def num_def)
qed

subsection \<open>The wall clock and the parameter table\<close>


lemma calibrateModel_clock:
  "calibrateModel now1 ms lp rs
     = (calibrateModel now2 ms lp rs)\<lparr>timestamp := timestamp (calibrateModel now1 ms lp rs)\<rparr>"
  by (simp add: calibrateModel_eq Let_def createDefaultCalibration_eq split: option.splits)



lemma call_clock:
  "forget_timestamp (fst (call (w\<lparr>clock := t\<rparr>) c)) = forget_timestamp (fst (call w c))"
  by (cases c)
    (simp_all add: call_def forget_timestamp_def calibrateModel_in_def Let_def
      createDefaultCalibration_in_def split: option.splits)


lemma call_same_table:
  assumes "calibParamDefs w' = calibParamDefs w"
  shows "forget_timestamp (fst (call w' c)) = forget_timestamp (fst (call w c))"
proof -
  have "w' = w\<lparr>clock := clock w'\<rparr>"
    using assms by simp
  then show ?thesis
    using call_clock[where w = w and t = "clock w'" and c = c] by simp
qed

lemma calibrateModel_at_module_table:
  "fst (call \<lparr>clock = now, calibParamDefs = CALIB_PARAM_DEFS\<rparr> (CalibrateModel ms lp rs))
     = Profile (calibrateModel now ms lp rs)"
  by (simp add: call_def calibrateModel_def)

lemma calibrateModel_reads_table:
  "fst (call \<lparr>clock = 0, calibParamDefs = CALIB_PARAM_DEFS\<rparr> (CalibrateModel None lp_demo None))
     \<noteq> fst (call \<lparr>clock = 0, calibParamDefs = table_demo\<rparr> (CalibrateModel None lp_demo None))"
proof -
  have "params (createDefaultCalibration_in CALIB_PARAM_DEFS) ''correctionFactor'' = Some (Fin 1)"
    by (simp add: createDefaultCalibration_in_def default_params_in_def CALIB_PARAM_DEFS_def)
  moreover have "params (createDefaultCalibration_in table_demo) ''correctionFactor''
                   = Some (Fin 2)"
    by (simp add: createDefaultCalibration_in_def default_params_in_def table_demo_def
        CALIB_PARAM_DEFS_def)
  ultimately have "createDefaultCalibration_in CALIB_PARAM_DEFS
                     \<noteq> createDefaultCalibration_in table_demo"
    by auto
  then show ?thesis
    by (simp add: call_def calibrateModel_in_def)
qed


subsection \<open>The bounds of the calibration parameters\<close>

lemma theta30_bounds: "pi / 6 \<le> theta30" "theta30 < pi / 2" "0 < theta30"
  using pi_gt_zero by (simp_all add: theta30_def)

lemma tan30: "1 / 2 \<le> tan theta30"
proof -
  have "sqrt 3 \<le> sqrt 4"
    by (intro real_sqrt_le_mono) simp
  then have "sqrt 3 \<le> 2" by simp
  then have "1 / 2 \<le> 1 / sqrt 3"
    by (simp add: field_simps)
  also have "\<dots> = tan (pi / 6)" by (simp add: tan_30)
  also have "\<dots> \<le> tan theta30"
    using theta30_bounds pi_gt_zero by (intro tan_mono_le) simp_all
  finally show ?thesis .
qed

lemma refr30_bounds: "0 < refr30" "refr30 \<le> 1"
proof -
  have t: "0 < tan theta30" using tan30 by linarith
  then show "0 < refr30" by (simp add: refr30_def)
  have "1.02 / tan theta30 \<le> 1.02 / (1 / 2)"
    using tan30 by (intro divide_left_mono) simp_all
  then show "refr30 \<le> 1" by (simp add: refr30_def)
qed

lemma s30_pos: "0 < s30"
proof -
  have "0 < (30 + refr30) * pi / 180"
    using refr30_bounds pi_gt_zero by simp
  moreover have "(30 + refr30) * pi / 180 < pi"
    using refr30_bounds pi_gt_zero by simp
  ultimately show ?thesis
    unfolding s30_def by (rule sin_gt_zero)
qed

lemma apparentElevation_30:
  assumes "elevation p = Some (Fin 30)"
  shows "apparentElevation (calculateLinkBudget p) = Fin (30 + refr30)"
proof -
  have e: "num (elevation p) = Fin 30"
    by (simp add: assms num_def)
  have t: "Math_max (Fin 0) (Fin 30) = Fin 30"
    by (simp add: Math_max_def)
  have a: "(Fin 30 + Fin 10.3 / (Fin 30 + Fin 5.11)) * Math_PI / Fin 180 = Fin theta30"
    by (simp add: Math_PI_def theta30_def)
  have c: "cos theta30 \<noteq> 0"
    using cos_gt_zero[OF theta30_bounds(3) theta30_bounds(2)] by simp
  have tn: "tan theta30 \<noteq> 0" using tan30 by linarith
  have r: "Fin 1.02 / Math_tan (Fin theta30) / Fin 60 = Fin refr30"
    unfolding Math_tan_Fin[OF c] refr30_def using tn by simp
  show ?thesis
    unfolding apparentElevation_eq Let_def e t a r by simp
qed

lemma sin_elev_30:
  assumes "elevation p = Some (Fin 30)"
  shows "Math_sin (apparentElevation (calculateLinkBudget p) * Math_PI / Fin 180) = Fin s30"
  unfolding apparentElevation_30[OF assms] by (simp add: Math_PI_def s30_def)

lemma A0_pos: "0 < A0"
  unfolding A0_def using s30_pos by (simp add: add_pos_pos)

lemma rain_loop_30: "rain_loop (Fin 30) = (Fin 0.187, Fin 1.021, Fin 0)"
  by (simp add: rain_loop_def rain_step_def RAIN_COEFFS_def Math_abs_def)

lemma or_else_Fin_0: "or_else (Some (Fin g)) (Fin 0) = Fin g"
  by (simp add: or_else_def truthy_def)

lemma attRain_30:
  assumes "freq p = Some (Fin 30)" "rainRate p = Some (Fin 1)" "elevation p = Some (Fin 30)"
    "dflt (Fin 1) (correctionFactor p) = Fin c"
  shows "attRain (calculateLinkBudget p) = Fin (c * A0)"
proof -
  have d: "0 < 1 + 0.045 * (3 / s30)"
    using s30_pos by (simp add: add_pos_pos)
  show ?thesis
    unfolding attRain_eq Let_def sin_elev_30[OF assms(3)]
    using s30_pos d
    by (simp add: assms num_def rain_loop_30 Math_pow_ge1 A0_def)
qed

lemma refractionCorrection_30:
  assumes "elevation p = Some (Fin 30)"
  shows "refractionCorrection (calculateLinkBudget p) = Fin refr30"
proof -
  have e: "num (elevation p) = Fin 30"
    by (simp add: assms num_def)
  have t: "Math_max (Fin 0) (Fin 30) = Fin 30"
    by (simp add: Math_max_def)
  have a: "(Fin 30 + Fin 10.3 / (Fin 30 + Fin 5.11)) * Math_PI / Fin 180 = Fin theta30"
    by (simp add: Math_PI_def theta30_def)
  have c: "cos theta30 \<noteq> 0"
    using cos_gt_zero[OF theta30_bounds(3) theta30_bounds(2)] by simp
  have tn: "tan theta30 \<noteq> 0" using tan30 by linarith
  have r: "Fin 1.02 / Math_tan (Fin theta30) / Fin 60 = Fin refr30"
    unfolding Math_tan_Fin[OF c] refr30_def using tn by simp
  show ?thesis
    unfolding refractionCorrection_eq Let_def e t a r by simp
qed

lemma finite_num_Fin [simp]: "finite_num (Fin a)"
  by (simp add: finite_num_def)

lemma finite_numE: "finite_num x \<Longrightarrow> (\<And>a. x = Fin a \<Longrightarrow> P) \<Longrightarrow> P"
  by (cases x) (simp_all add: finite_num_def)

lemma lb_30:
  assumes "freq p = Some (Fin 30)" "rainRate p = Some (Fin 1)" "elevation p = Some (Fin 30)"
    "env p = Some ''rural''" "tec p = None" "hpbw p = None" "\<not> isPhasedArray p"
    "dflt (Fin 1) (correctionFactor p) = Fin c" "or_else (gasAttenOffset_dB p) (Fin 0) = Fin g"
    "\<bar>c * A0 + B0 + g\<bar> \<le> 3000"
  shows "totalAtmosphericLoss (calculateLinkBudget p) = Fin (c * A0 + B0 + g)"
    and "tSky (calculateLinkBudget p) = Fin (tsky_of (c * A0 + B0 + g))"
    and "fadeLMS (calculateLinkBudget p) = Fin 0.5"
    and "scanLoss (calculateLinkBudget p) = Fin 0"
    and "multipathLoss (calculateLinkBudget p) = Fin 0"
    and "finite_num (pointingLoss (calculateLinkBudget p))"
    and "finite_num (lossFaraday (calculateLinkBudget p))"
proof -
  note s = sin_elev_30[OF assms(3)]
  have g: "attGas (calculateLinkBudget p) = Fin (0.3 / s30)"
    unfolding attGas_eq s using s30_pos
    by (simp add: assms num_def attZenithGas_of_def)
  have cl: "attCloud (calculateLinkBudget p) = Fin (0.5 * (0.0002 * 30 powr 1.95) / s30)"
    unfolding attCloud_eq s using s30_pos
    by (simp add: assms num_def Math_pow_ge1)
  show L: "totalAtmosphericLoss (calculateLinkBudget p) = Fin (c * A0 + B0 + g)"
    unfolding totalAtmosphericLoss_eq attRain_30[OF assms(1,2,3,8)] g cl
    by (simp add: assms B0_def)
  have "\<bar>- (c * A0 + B0 + g) / 10\<bar> \<le> 300"
    using assms(10) by simp
  then have "Math_pow (Fin 10) (Fin (- (c * A0 + B0 + g) / 10))
               = Fin (10 powr (- (c * A0 + B0 + g) / 10))"
    by (rule Math_pow_10)
  then have p: "Math_pow (Fin 10) (- Fin (c * A0 + B0 + g) / Fin 10)
                  = Fin (10 powr (- (c * A0 + B0 + g) / 10))"
    by simp
  show "tSky (calculateLinkBudget p) = Fin (tsky_of (c * A0 + B0 + g))"
    unfolding tSky_eq L p by (simp add: tsky_of_def)
  show "fadeLMS (calculateLinkBudget p) = Fin 0.5"
    unfolding fadeLMS_eq by (simp add: assms)
  show "scanLoss (calculateLinkBudget p) = Fin 0"
    using assms by (simp add: scanLoss_off)
  show "multipathLoss (calculateLinkBudget p) = Fin 0"
    using assms by (simp add: multipathLoss_off)
  show "finite_num (pointingLoss (calculateLinkBudget p))"
  proof -
    have "(refr30 / 2) powr 2 \<le> 1 powr 2"
      using refr30_bounds by (intro powr_mono2) simp_all
    then have "(refr30 / 2) powr 2 < overflow_threshold"
      using thresholds(6) by simp
    then have "finite_num (Math_pow (Fin (refr30 / 2)) (Fin 2))"
      using refr30_bounds(1) by (intro Math_pow_finite) simp_all
    then obtain x where x: "Math_pow (Fin (refr30 / 2)) (Fin 2) = Fin x"
      by (rule finite_numE)
    show ?thesis
      unfolding pointingLoss_eq refractionCorrection_30[OF assms(3)]
      by (simp add: assms dflt_def x)
  qed
  show "finite_num (lossFaraday (calculateLinkBudget p))"
  proof -
    have "0 < 30 powr 2 * s30"
      using s30_pos by simp
    then have nz: "30 powr 2 * s30 \<noteq> 0" by simp
    show ?thesis
      unfolding lossFaraday_eq Let_def s
      using nz
      by (simp add: assms num_def dflt_def Math_pow_ge1 Math_PI_def Math_abs_def
          Math_log10_def)
  qed
qed

lemma tsky_of_mono: "L < L' \<Longrightarrow> tsky_of L < tsky_of L'"
  by (simp add: tsky_of_def)

lemma tsky_of_mono_le: "L \<le> L' \<Longrightarrow> tsky_of L \<le> tsky_of L'"
  by (simp add: tsky_of_def)

lemma B0_pos: "0 < B0"
  unfolding B0_def using s30_pos by (simp add: add_pos_pos)

lemma s30_ge: "1 / 2 \<le> s30"
proof -
  have "sin (pi / 6) \<le> sin ((30 + refr30) * pi / 180)"
    using refr30_bounds pi_gt_zero by (intro sin_monotone_2pi_le) simp_all
  then show ?thesis
    by (simp add: s30_def sin_30)
qed

lemma A0_le: "A0 \<le> 2"
proof -
  have "3 / s30 \<le> 3 / (1 / 2)"
    using s30_ge by (intro divide_left_mono) simp_all
  then have a: "3 / s30 \<le> 6" by simp
  have "0 < 1 + 0.045 * (3 / s30)"
    using s30_pos by (simp add: add_pos_pos)
  then have "1 / (1 + 0.045 * (3 / s30)) \<le> 1"
    using s30_pos by (simp add: field_simps)
  moreover have "0 \<le> 3 / s30"
    using s30_pos by simp
  ultimately have "(3 / s30) * (1 / (1 + 0.045 * (3 / s30))) \<le> (3 / s30) * 1"
    by (intro mult_left_mono)
  with a have b: "(3 / s30) * (1 / (1 + 0.045 * (3 / s30))) \<le> 6"
    by linarith
  define X where "X = (3 / s30) * (1 / (1 + 0.045 * (3 / s30)))"
  have "X \<le> 6"
    using b by (simp only: X_def)
  then have "0.187 * X \<le> 2"
    by simp
  then show ?thesis
    by (simp only: X_def A0_def)
qed

lemma B0_le: "B0 \<le> 1"
proof -
  have "(30::real) powr 1.95 \<le> 30 powr 2"
    by (intro powr_mono) simp_all
  then have p: "0.5 * (0.0002 * 30 powr 1.95) \<le> (0.09::real)"
    by simp
  have "0.3 / s30 \<le> 0.3 / (1 / 2)"
    using s30_ge by (intro divide_left_mono) simp_all
  moreover have "0.5 * (0.0002 * 30 powr 1.95) / s30 \<le> 0.09 / (1 / 2)"
    using p s30_ge by (intro frac_le) simp_all
  ultimately show ?thesis
    unfolding B0_def by simp
qed

lemma loss_range:
  assumes "0 \<le> c" "c \<le> 2" "0 \<le> g" "g \<le> 1"
  shows "\<bar>c * A0 + B0 + g\<bar> \<le> 3000"
proof -
  have "c * A0 \<le> 2 * 2"
    using assms A0_le A0_pos by (intro mult_mono) simp_all
  moreover have "0 \<le> c * A0"
    using assms A0_pos by simp
  ultimately show ?thesis
    using B0_le B0_pos assms by simp
qed

lemma T0_pos: "0 < T0"
proof -
  have "tsky_of 0 < tsky_of (A0 + B0)"
    using A0_pos B0_pos by (intro tsky_of_mono) simp
  then show ?thesis by (simp add: T0_def tsky_of_def)
qed

lemma tSky_probe: "tSky (calculateLinkBudget p_probe) = Fin T0"
  using lb_30(2)[of p_probe 1 0] loss_range[of 1 0]
  by (simp add: p_probe_def dflt_def or_else_simps T0_def)

lemma tRx_cal: "tRx lp_cal = Some (Fin (- (3 + T0)))"
  by (simp add: lp_cal_def tSky_probe)

lemma or_else_Fin: "or_else (Some (Fin a)) (Fin d) = Fin (if a = 0 then d else a)"
  by (simp add: or_else_def truthy_def)

lemma predictedCN0_eq:
  "predictedCN0 (simulateForMeasurement lp m) =
     (let lb = calculateLinkBudget
                 (lp\<lparr>elevation := Some (or_else (m_elevation m) (or_else (elevation lp) (Fin 30))),
                     rainRate := Some (case m_rainRate m of
                                         Some r \<Rightarrow> r
                                       | None \<Rightarrow> or_else (rainRate lp) (Fin 0))\<rparr>);
          absoluteFspl = Fin 20 * Math_log10 (or_else (slantRange lp) (Fin 35786))
                           + Fin 20 * Math_log10 (or_else (freq lp) (Fin 30)) + Fin 92.45;
          absoluteLoss =
            totalAtmosphericLoss lb + fadeLMS lb + lossFaraday lb + pointingLoss lb
              + or_else (Some (scanLoss lb)) (Fin 0) + or_else (Some (multipathLoss lb)) (Fin 0)
              + absoluteFspl;
          rxPowerDbm = or_else (eirp lp) (Fin 60) + Fin 30 - absoluteLoss
                         + or_else (gRx lp) (Fin 42);
          tSys = or_else (tRx lp) (Fin 150) + tSky lb + Fin 3;
          noisePowerW = k_boltzmann * tSys * (or_else (bandwidth lp) (Fin 400) * Fin 1000000)
      in Math_max (- Fin 30) (rxPowerDbm - (Fin 10 * Math_log10 noisePowerW + Fin 30)))"
  by (simp add: simulateForMeasurement_def Let_def)

lemma sim_cal:
  assumes q: "freq q = Some (Fin 30)" "env q = Some ''rural''" "tec q = None" "hpbw q = None"
      "\<not> isPhasedArray q" "bandwidth q = None" "slantRange q = None"
      "dflt (Fin 1) (correctionFactor q) = Fin c" "or_else (gasAttenOffset_dB q) (Fin 0) = Fin g"
      "or_else (eirp q) (Fin 60) = Fin E" "or_else (gRx q) (Fin 42) = Fin G"
      "or_else (tRx q) (Fin 150) = Fin R"
    and rng: "\<bar>c * A0 + B0 + g\<bar> \<le> 3000"
  shows "R + tsky_of (c * A0 + B0 + g) + 3 = 0
           \<Longrightarrow> predictedCN0 (simulateForMeasurement q m_cal) = PInf"
    and "0 < R + tsky_of (c * A0 + B0 + g) + 3
           \<Longrightarrow> finite_num (predictedCN0 (simulateForMeasurement q m_cal))"
proof -
  let ?tp = "q\<lparr>elevation := Some (Fin 30), rainRate := Some (Fin 1)\<rparr>"
  have tp: "q\<lparr>elevation := Some (or_else (m_elevation m_cal) (or_else (elevation q) (Fin 30))),
              rainRate := Some (case m_rainRate m_cal of
                                  Some r \<Rightarrow> r
                                | None \<Rightarrow> or_else (rainRate q) (Fin 0))\<rparr> = ?tp"
    by (simp add: m_cal_def or_else_simps)
  note lb = lb_30[of ?tp c g, simplified, OF q(1,2,3,4,5,8,9) rng]
  obtain F where F: "lossFaraday (calculateLinkBudget ?tp) = Fin F"
    using lb(7) by (rule finite_numE)
  obtain P where P: "pointingLoss (calculateLinkBudget ?tp) = Fin P"
    using lb(6) by (rule finite_numE)
  have cn0: "predictedCN0 (simulateForMeasurement q m_cal) =
     Math_max (- Fin 30)
       (Fin (E + 30 - (c * A0 + B0 + g + 0.5 + F + P + 0 + 0
                        + (20 * log 10 35786 + 20 * log 10 30 + 92.45)) + G)
        - (Fin 10 * Math_log10 (k_boltzmann * Fin (R + tsky_of (c * A0 + B0 + g) + 3)
                                  * Fin (400 * 1000000))
           + Fin 30))"
    unfolding predictedCN0_eq Let_def tp lb(1-5) F P q
    by (simp add: or_else_simps or_else_Fin Math_log10_def)
  show "predictedCN0 (simulateForMeasurement q m_cal) = PInf"
    if "R + tsky_of (c * A0 + B0 + g) + 3 = 0"
    unfolding cn0 that
    by (simp add: k_boltzmann_def Math_log10_def Math_max_def minus_jsnum_def)
  show "finite_num (predictedCN0 (simulateForMeasurement q m_cal))"
    if "0 < R + tsky_of (c * A0 + B0 + g) + 3"
  proof -
    have "0 < 1.380649 / 10 ^ 23 * (R + tsky_of (c * A0 + B0 + g) + 3) * (400 * 1000000)"
      using that by simp
    then show ?thesis
      unfolding cn0
      by (simp add: k_boltzmann_def Math_log10_def Math_max_def)
  qed
qed

lemma nParams_5: "nParams = 5"
  by (simp add: nParams_eq CALIB_PARAM_DEFS_def)

lemma upts:
  "[0..<5] = [0, 1, 2, 3, 4]" "[1..<5] = [1, 2, 3, 4]" "[2..<5] = [2, 3, 4]"
  "[3..<5] = [3, 4]" "[4..<5] = [4]" "[5..<5] = []" "[0..<1] = [0]"
  "[0 + 1..<5] = [1, 2, 3, 4]" "[1 + 1..<5] = [2, 3, 4]"  "[2 + 1..<5] = [3, 4]"
  "[3 + 1..<5] = [4]" "[4 + 1..<5] = []"
  "[Suc 0..<5] = [1, 2, 3, 4]" "[Suc 1..<5] = [2, 3, 4]"  "[Suc 2..<5] = [3, 4]"
  "[Suc 3..<5] = [4]" "[Suc 4..<5] = []"
  by (simp_all add: upt_rec)

lemma dot1: "dot [a] [b] (Suc 0) = Fin 0 + a * b"
  by (simp add: dot_def)

lemma normal1:
  "solve_normal_equations [[NInf], [NInf], [NaN], [NaN], [NInf]] [PInf] =
     (let Ab = foldl eliminate_col
        ([[PInf, PInf, NaN, NaN, PInf],
          [PInf, PInf, NaN, NaN, PInf],
          [NaN, NaN, NaN, NaN, NaN],
          [NaN, NaN, NaN, NaN, NaN],
          [PInf, PInf, NaN, NaN, PInf]], [NInf, NInf, NaN, NaN, NInf]) [0, 1, 2, 3, 4]
      in back_substitute (fst Ab) (snd Ab))"
  by (simp add: solve_normal_equations_eq nParams_5 upts dot1 dampingFactor_def Let_def)

lemmas elim_defs = eliminate_col_eq eliminate_row_eq find_maxRow_eq swap_def Math_abs_def
  Let_def nParams_5 upt_conv_Cons

lemma elim1_0:
  "eliminate_col ([[PInf, PInf, NaN, NaN, PInf],
          [PInf, PInf, NaN, NaN, PInf],
          [NaN, NaN, NaN, NaN, NaN],
          [NaN, NaN, NaN, NaN, NaN],
          [PInf, PInf, NaN, NaN, PInf]], [NInf, NInf, NaN, NaN, NInf]) 0
   = ([[PInf, PInf, NaN, NaN, PInf], [NaN, NaN, NaN, NaN, NaN], [NaN, NaN, NaN, NaN, NaN],
       [NaN, NaN, NaN, NaN, NaN], [NaN, NaN, NaN, NaN, NaN]], [NInf, NaN, NaN, NaN, NaN])"
  by (simp add: elim_defs)

lemma elim_nan:
  "eliminate_col ([r0, [NaN, NaN, NaN, NaN, NaN], [NaN, NaN, NaN, NaN, NaN],
       [NaN, NaN, NaN, NaN, NaN], [NaN, NaN, NaN, NaN, NaN]], [b0, NaN, NaN, NaN, NaN]) 1
   = ([r0, [NaN, NaN, NaN, NaN, NaN], [NaN, NaN, NaN, NaN, NaN],
       [NaN, NaN, NaN, NaN, NaN], [NaN, NaN, NaN, NaN, NaN]], [b0, NaN, NaN, NaN, NaN])"
  "eliminate_col ([r0, [NaN, NaN, NaN, NaN, NaN], [NaN, NaN, NaN, NaN, NaN],
       [NaN, NaN, NaN, NaN, NaN], [NaN, NaN, NaN, NaN, NaN]], [b0, NaN, NaN, NaN, NaN]) 2
   = ([r0, [NaN, NaN, NaN, NaN, NaN], [NaN, NaN, NaN, NaN, NaN],
       [NaN, NaN, NaN, NaN, NaN], [NaN, NaN, NaN, NaN, NaN]], [b0, NaN, NaN, NaN, NaN])"
  "eliminate_col ([r0, [NaN, NaN, NaN, NaN, NaN], [NaN, NaN, NaN, NaN, NaN],
       [NaN, NaN, NaN, NaN, NaN], [NaN, NaN, NaN, NaN, NaN]], [b0, NaN, NaN, NaN, NaN]) 3
   = ([r0, [NaN, NaN, NaN, NaN, NaN], [NaN, NaN, NaN, NaN, NaN],
       [NaN, NaN, NaN, NaN, NaN], [NaN, NaN, NaN, NaN, NaN]], [b0, NaN, NaN, NaN, NaN])"
  "eliminate_col ([r0, [NaN, NaN, NaN, NaN, NaN], [NaN, NaN, NaN, NaN, NaN],
       [NaN, NaN, NaN, NaN, NaN], [NaN, NaN, NaN, NaN, NaN]], [b0, NaN, NaN, NaN, NaN]) 4
   = ([r0, [NaN, NaN, NaN, NaN, NaN], [NaN, NaN, NaN, NaN, NaN],
       [NaN, NaN, NaN, NaN, NaN], [NaN, NaN, NaN, NaN, NaN]], [b0, NaN, NaN, NaN, NaN])"
  by (simp_all add: elim_defs)

lemma replicate_5: "replicate 5 x = [x, x, x, x, x]"
  by (simp add: eval_nat_numeral)

lemma back1:
  "back_substitute [[PInf, PInf, NaN, NaN, PInf], [NaN, NaN, NaN, NaN, NaN],
       [NaN, NaN, NaN, NaN, NaN], [NaN, NaN, NaN, NaN, NaN], [NaN, NaN, NaN, NaN, NaN]]
     [NInf, NaN, NaN, NaN, NaN] = [NaN, Fin 0, Fin 0, Fin 0, Fin 0]"
  by (simp add: back_substitute_eq nParams_5 upt_conv_Cons Math_abs_def Let_def replicate_5)

lemma solve_first:
  "solve_normal_equations [[NInf], [NInf], [NaN], [NaN], [NInf]] [PInf]
     = [NaN, Fin 0, Fin 0, Fin 0, Fin 0]"
  unfolding normal1 Let_def foldl.simps elim1_0 elim_nan fst_conv snd_conv by (rule back1)

lemma normal2:
  "solve_normal_equations [[NaN], [NInf], [NaN], [NaN], [NInf]] [PInf] =
     (let Ab = foldl eliminate_col
        ([[NaN, NaN, NaN, NaN, NaN],
          [NaN, PInf, NaN, NaN, PInf],
          [NaN, NaN, NaN, NaN, NaN],
          [NaN, NaN, NaN, NaN, NaN],
          [NaN, PInf, NaN, NaN, PInf]], [NaN, NInf, NaN, NaN, NInf]) [0, 1, 2, 3, 4]
      in back_substitute (fst Ab) (snd Ab))"
  by (simp add: solve_normal_equations_eq nParams_5 upts dot1 dampingFactor_def Let_def)

lemma elim2_0:
  "eliminate_col ([[NaN, NaN, NaN, NaN, NaN],
          [NaN, PInf, NaN, NaN, PInf],
          [NaN, NaN, NaN, NaN, NaN],
          [NaN, NaN, NaN, NaN, NaN],
          [NaN, PInf, NaN, NaN, PInf]], [NaN, NInf, NaN, NaN, NInf]) 0
   = ([[NaN, NaN, NaN, NaN, NaN], [NaN, NaN, NaN, NaN, NaN], [NaN, NaN, NaN, NaN, NaN],
       [NaN, NaN, NaN, NaN, NaN], [NaN, NaN, NaN, NaN, NaN]], [NaN, NaN, NaN, NaN, NaN])"
  by (simp add: elim_defs)

lemma back2:
  "back_substitute [[NaN, NaN, NaN, NaN, NaN], [NaN, NaN, NaN, NaN, NaN],
       [NaN, NaN, NaN, NaN, NaN], [NaN, NaN, NaN, NaN, NaN], [NaN, NaN, NaN, NaN, NaN]]
     [NaN, NaN, NaN, NaN, NaN] = [Fin 0, Fin 0, Fin 0, Fin 0, Fin 0]"
  by (simp add: back_substitute_eq nParams_5 upt_conv_Cons Math_abs_def Let_def replicate_5)

lemma solve_later:
  "solve_normal_equations [[NaN], [NInf], [NaN], [NaN], [NInf]] [PInf]
     = [Fin 0, Fin 0, Fin 0, Fin 0, Fin 0]"
  unfolding normal2 Let_def foldl.simps elim2_0 elim_nan fst_conv snd_conv by (rule back2)

lemma residuals_of_cal:
  "residuals_of sim m_cal = [(predictedCN0 sim - Fin 0) * Fin 2]"
  by (simp add: residuals_of_def m_cal_def)

lemma residuals_cal:
  assumes "or_else (cpm ''correctionFactor'') (Fin 1) = Fin c"
    "or_else (cpm ''gasAttenOffset_dB'') (Fin 0) = Fin g"
    "or_else (cpm ''eirpOffset_dB'') (Fin 0) = Fin e"
    "or_else (cpm ''systemNoiseOffset_K'') (Fin 0) = Fin n" "0 \<le> n" "n < 3"
  shows "c = 1 \<Longrightarrow> g = 0 \<Longrightarrow> n = 0 \<Longrightarrow> computeResiduals [m_cal] lp_cal cpm = [PInf]"
    and "1 \<le> c \<Longrightarrow> c \<le> 2 \<Longrightarrow> 0 \<le> g \<Longrightarrow> g \<le> 1 \<Longrightarrow> 1 < c \<or> 0 < g \<or> 0 < n
           \<Longrightarrow> \<exists>x. computeResiduals [m_cal] lp_cal cpm = [Fin x]"
proof -
  let ?q = "applyCalibration lp_cal
              (Some \<lparr>calibrated = True, timestamp = None, dataPointCount = 0,
                     residualRMS = Fin 0, refSatellite = None, params = cpm\<rparr>)"
  have r: "computeResiduals [m_cal] lp_cal cpm
             = [(predictedCN0 (simulateForMeasurement ?q m_cal) - Fin 0) * Fin 2]"
    by (simp add: computeResiduals_def Let_def residuals_of_cal)
  have nz: "- 3 - T0 + n \<noteq> 0" "n - 3 - T0 \<noteq> 0" "3 + T0 \<noteq> 0"
    using T0_pos assms(6) by linarith+
  have R: "or_else (tRx ?q) (Fin 150) = Fin (n - 3 - T0)"
    using nz
    by (simp add: applyCalibration_def Let_def tRx_cal assms(1-4) or_else_Fin)
  have q: "freq ?q = Some (Fin 30)" "env ?q = Some ''rural''" "tec ?q = None" "hpbw ?q = None"
      "\<not> isPhasedArray ?q" "bandwidth ?q = None" "slantRange ?q = None"
      "dflt (Fin 1) (correctionFactor ?q) = Fin c"
      "or_else (gasAttenOffset_dB ?q) (Fin 0) = Fin g"
      "or_else (eirp ?q) (Fin 60) = Fin (if 60 + e = 0 then 60 else 60 + e)"
      "or_else (gRx ?q) (Fin 42) = Fin 42"
    by (simp_all add: applyCalibration_def Let_def lp_cal_def assms or_else_Fin dflt_def
        or_else_simps)
  note sim = sim_cal[OF q R]
  show "computeResiduals [m_cal] lp_cal cpm = [PInf]" if "c = 1" "g = 0" "n = 0"
  proof -
    have "n - 3 - T0 + tsky_of (c * A0 + B0 + g) + 3 = 0"
      using that by (simp add: T0_def)
    moreover have "\<bar>c * A0 + B0 + g\<bar> \<le> 3000"
      using that loss_range[of 1 0] by simp
    ultimately show ?thesis
      using sim(1)
      unfolding r by (simp add: minus_jsnum_def)
  qed
  show "\<exists>x. computeResiduals [m_cal] lp_cal cpm = [Fin x]"
    if "1 \<le> c" "c \<le> 2" "0 \<le> g" "g \<le> 1" "1 < c \<or> 0 < g \<or> 0 < n"
  proof -
    have rng: "\<bar>c * A0 + B0 + g\<bar> \<le> 3000"
      using that by (intro loss_range) simp_all
    have le: "A0 + B0 \<le> c * A0 + B0 + g"
      using that(1,3) A0_pos by (simp add: mult_le_cancel_right1 add_increasing2)
    have "T0 \<le> tsky_of (c * A0 + B0 + g)"
      unfolding T0_def using le by (rule tsky_of_mono_le)
    moreover have "T0 < tsky_of (c * A0 + B0 + g)" if "1 < c \<or> 0 < g"
    proof -
      have "A0 < c * A0 \<or> 0 < g" using that A0_pos by simp
      moreover have "A0 \<le> c * A0"
        using \<open>1 \<le> c\<close> A0_pos by simp
      ultimately have "A0 + B0 < c * A0 + B0 + g"
        using \<open>0 \<le> g\<close> by linarith
      then show ?thesis
        unfolding T0_def by (rule tsky_of_mono)
    qed
    ultimately have "0 < n - 3 - T0 + tsky_of (c * A0 + B0 + g) + 3"
      using that(5) assms(5) by fastforce
    from sim(2)[OF rng this] obtain y where "predictedCN0 (simulateForMeasurement ?q m_cal) = Fin y"
      by (rule finite_numE)
    then show ?thesis
      unfolding r by simp
  qed
qed

lemma default_params_map:
  "default_params = [''correctionFactor'' \<mapsto> Fin 1, ''gasAttenOffset_dB'' \<mapsto> Fin 0,
             ''scatterPowerOffset_dB'' \<mapsto> Fin 0, ''eirpOffset_dB'' \<mapsto> Fin 0,
             ''systemNoiseOffset_K'' \<mapsto> Fin 0]"
  by (simp add: default_params_eq CALIB_PARAM_DEFS_def)

lemma res_base:
  "computeResiduals [m_cal] lp_cal default_params = [PInf]"
  "computeResiduals [m_cal] lp_cal cp_nan = [PInf]"
  by (rule residuals_cal(1)[where c = 1 and g = 0 and e = 0 and n = 0];
      simp add: default_params_map cp_nan_def or_else_simps)+

lemma jacobian_col_cal:
  assumes "computeResiduals [m_cal] lp_cal
             (cp(key (CALIB_PARAM_DEFS ! p) \<mapsto>
                   num (cp (key (CALIB_PARAM_DEFS ! p)))
                     + Math_max (step (CALIB_PARAM_DEFS ! p) * Fin 0.1) (Fin 0.000001))) = [v]"
  shows "jacobian_col [m_cal] lp_cal cp [PInf] p
           = [(v - PInf) / Math_max (step (CALIB_PARAM_DEFS ! p) * Fin 0.1) (Fin 0.000001)]"
  using assms by (simp add: jacobian_col_eq Let_def)

lemma jac_same:
  assumes "computeResiduals [m_cal] lp_cal
             (cp(key (CALIB_PARAM_DEFS ! p) \<mapsto>
                   num (cp (key (CALIB_PARAM_DEFS ! p)))
                     + Math_max (step (CALIB_PARAM_DEFS ! p) * Fin 0.1) (Fin 0.000001))) = [PInf]"
  shows "jacobian_col [m_cal] lp_cal cp [PInf] p = [NaN]"
  unfolding jacobian_col_cal[OF assms] by (simp add: minus_jsnum_def)

lemma jac_finite:
  assumes "\<exists>x. computeResiduals [m_cal] lp_cal
             (cp(key (CALIB_PARAM_DEFS ! p) \<mapsto>
                   num (cp (key (CALIB_PARAM_DEFS ! p)))
                     + Math_max (step (CALIB_PARAM_DEFS ! p) * Fin 0.1) (Fin 0.000001))) = [Fin x]"
    and "p < 5"
  shows "jacobian_col [m_cal] lp_cal cp [PInf] p = [NInf]"
proof -
  from assms(1) obtain x where x: "computeResiduals [m_cal] lp_cal
             (cp(key (CALIB_PARAM_DEFS ! p) \<mapsto>
                   num (cp (key (CALIB_PARAM_DEFS ! p)))
                     + Math_max (step (CALIB_PARAM_DEFS ! p) * Fin 0.1) (Fin 0.000001))) = [Fin x]"
    by blast
  have "p = 0 \<or> p = 1 \<or> p = 2 \<or> p = 3 \<or> p = 4"
    using assms(2) by linarith
  then show ?thesis
    unfolding jacobian_col_cal[OF x]
    by (auto simp: minus_jsnum_def CALIB_PARAM_DEFS_def Math_max_def)
qed

lemmas cal_eval = CALIB_PARAM_DEFS_def default_params_map cp_nan_def num_def Math_max_def
  or_else_simps or_else_Fin

lemma jacobian_default:
  "map (jacobian_col [m_cal] lp_cal default_params [PInf]) [0..<nParams]
     = [[NInf], [NInf], [NaN], [NaN], [NInf]]"
proof -
  have "jacobian_col [m_cal] lp_cal default_params [PInf] 0 = [NInf]"
    by (rule jac_finite, rule residuals_cal(2)[where c = "1.001" and g = 0 and e = 0 and n = 0])
      (simp_all add: cal_eval)
  moreover have "jacobian_col [m_cal] lp_cal default_params [PInf] 1 = [NInf]"
    by (rule jac_finite, rule residuals_cal(2)[where c = 1 and g = "0.001" and e = 0 and n = 0])
      (simp_all add: cal_eval)
  moreover have "jacobian_col [m_cal] lp_cal default_params [PInf] 2 = [NaN]"
    by (rule jac_same, rule residuals_cal(1)[where c = 1 and g = 0 and e = 0 and n = 0])
      (simp_all add: cal_eval)
  moreover have "jacobian_col [m_cal] lp_cal default_params [PInf] 3 = [NaN]"
    by (rule jac_same, rule residuals_cal(1)[where c = 1 and g = 0 and e = "0.01" and n = 0])
      (simp_all add: cal_eval)
  moreover have "jacobian_col [m_cal] lp_cal default_params [PInf] 4 = [NInf]"
    by (rule jac_finite, rule residuals_cal(2)[where c = 1 and g = 0 and e = 0 and n = "0.1"])
      (simp_all add: cal_eval)
  ultimately show ?thesis
    by (simp add: nParams_5 upts)
qed

lemma jacobian_nan:
  "map (jacobian_col [m_cal] lp_cal cp_nan [PInf]) [0..<nParams]
     = [[NaN], [NInf], [NaN], [NaN], [NInf]]"
proof -
  have "jacobian_col [m_cal] lp_cal cp_nan [PInf] 0 = [NaN]"
    by (rule jac_same, rule residuals_cal(1)[where c = 1 and g = 0 and e = 0 and n = 0])
      (simp_all add: cal_eval)
  moreover have "jacobian_col [m_cal] lp_cal cp_nan [PInf] 1 = [NInf]"
    by (rule jac_finite, rule residuals_cal(2)[where c = 1 and g = "0.001" and e = 0 and n = 0])
      (simp_all add: cal_eval)
  moreover have "jacobian_col [m_cal] lp_cal cp_nan [PInf] 2 = [NaN]"
    by (rule jac_same, rule residuals_cal(1)[where c = 1 and g = 0 and e = 0 and n = 0])
      (simp_all add: cal_eval)
  moreover have "jacobian_col [m_cal] lp_cal cp_nan [PInf] 3 = [NaN]"
    by (rule jac_same, rule residuals_cal(1)[where c = 1 and g = 0 and e = "0.01" and n = 0])
      (simp_all add: cal_eval)
  moreover have "jacobian_col [m_cal] lp_cal cp_nan [PInf] 4 = [NInf]"
    by (rule jac_finite, rule residuals_cal(2)[where c = 1 and g = 0 and e = 0 and n = "0.1"])
      (simp_all add: cal_eval)
  ultimately show ?thesis
    by (simp add: nParams_5 upts)
qed

lemma solve_step_default:
  "solve_step [m_cal] lp_cal default_params = [NaN, Fin 0, Fin 0, Fin 0, Fin 0]"
  unfolding solve_step_eq Let_def res_base jacobian_default by (rule solve_first)

lemma solve_step_nan:
  "solve_step [m_cal] lp_cal cp_nan = [Fin 0, Fin 0, Fin 0, Fin 0, Fin 0]"
  unfolding solve_step_eq Let_def res_base jacobian_nan by (rule solve_later)

lemma gn_iteration_default:
  "gn_iteration [m_cal] lp_cal default_params = (cp_nan, NaN)"
  unfolding gn_iteration_eq solve_step_default
  by (simp add: nParams_5 upts update_param_eq Let_def cal_eval Math_min_def Math_abs_def
      minus_jsnum_def fun_eq_iff)

lemma gn_iteration_nan:
  "gn_iteration [m_cal] lp_cal cp_nan = (cp_nan, NaN)"
  unfolding gn_iteration_eq solve_step_nan
  by (simp add: nParams_5 upts update_param_eq Let_def cal_eval Math_min_def Math_abs_def
      minus_jsnum_def fun_eq_iff)

lemma gn_loop_nan: "gn_loop n [m_cal] lp_cal cp_nan = cp_nan"
  by (induction n) (simp_all add: gn_iteration_nan convergenceThreshold_def)

lemma gn_loop_default: "gn_loop (Suc n) [m_cal] lp_cal default_params = cp_nan"
  by (simp add: gn_iteration_default convergenceThreshold_def gn_loop_nan)

text \<open>
  C3. The claim is that every parameter of the returned profile lies within its
  bounds. In this run the first simulation has a system temperature of exactly zero,
  so the noise floor is minus infinity and the predicted C/N0, hence the residual, is
  plus infinity. The Jacobian then holds infinities and \<open>NaN\<close>, the pivot of the first
  column is infinite, and the back substitution divides \<open>NaN\<close> by it: the step of the
  correction factor is \<open>NaN\<close>. \<^verbatim>\<open>Math.max(min, Math.min(max, NaN))\<close> is \<open>NaN\<close>, so the
  clamp lets it through, and the later iterations never repair it.
\<close>

theorem calibrateModel_NaN_parameter:
  "params (calibrateModel 0 (Some [m_cal]) lp_cal None) ''correctionFactor'' = Some NaN"
proof -
  have m: "maxIterations = Suc 29"
    by (simp add: maxIterations_def)
  have "gn_loop maxIterations [m_cal] lp_cal default_params = cp_nan"
    unfolding m by (rule gn_loop_default)
  then show ?thesis
    by (simp add: calibrateModel_eq Let_def cp_nan_def)
qed

text \<open>
  What the clamp does guarantee, for every input: each returned parameter is \<open>NaN\<close>
  or within its bounds.
\<close>

lemma clamp_ok:
  "a \<le> b \<Longrightarrow> Math_max (Fin a) (Math_min (Fin b) x) = NaN
     \<or> (Fin a \<le> Math_max (Fin a) (Math_min (Fin b) x)
        \<and> Math_max (Fin a) (Math_min (Fin b) x) \<le> Fin b)"
  by (cases x) (auto simp: Math_max_def Math_min_def)

lemma update_all_ok:
  "params_ok (fst (foldl (update_param dp) (cp, ms) [0, 1, 2, 3, 4]))"
  using clamp_ok[of "0.3" "3.0"] clamp_ok[of "- 2" 2] clamp_ok[of "- 10" 5]
    clamp_ok[of "- 5" 5] clamp_ok[of "- 50" 100]
  by (simp add: params_ok_def update_param_eq Let_def CALIB_PARAM_DEFS_def)

lemma gn_iteration_ok: "params_ok (fst (gn_iteration ms ep cp))"
  unfolding gn_iteration_eq nParams_5 upts by (rule update_all_ok)

lemma gn_loop_ok: "params_ok cp \<Longrightarrow> params_ok (gn_loop n ms ep cp)"
  by (induction n arbitrary: cp) (simp_all add: Let_def gn_iteration_ok)

lemma default_params_ok: "params_ok default_params"
  by (simp add: params_ok_def default_params_map CALIB_PARAM_DEFS_def)

lemma calibrateModel_params_ok: "params_ok (params (calibrateModel now ms lp rs))"
  by (simp add: calibrateModel_eq Let_def createDefaultCalibration_eq default_params_ok
      gn_loop_ok split: option.splits)

lemma length_residuals_of: "length (residuals_of sim m) = length (residuals_of sim' m)"
  by (simp add: residuals_of_def split: option.splits)

lemma length_computeResiduals:
  "length (computeResiduals ms lp cp) = length (computeResiduals ms lp cp')"
proof -
  have "length (concat (map (\<lambda>m. residuals_of (f m) m) ms))
          = length (concat (map (\<lambda>m. residuals_of (g m) m) ms))" for f g
  proof (induction ms)
    case Nil
    then show ?case by simp
  next
    case (Cons m ms)
    then show ?case
      using length_residuals_of[of "f m" m "g m"] by simp
  qed
  then show ?thesis
    unfolding computeResiduals_def Let_def .
qed

subsection \<open>The vacuum baseline away from the horizon\<close>

text \<open>
  Where the sine of the apparent elevation is neither 0 nor -0.135 (the value at which
  the path reduction factor has its pole), a frequency between 1 and 1000 GHz with no
  rain and no electron content does give a rain attenuation, a Faraday loss and a
  group delay of exactly 0; an elevation of 30 degrees is such a case.
\<close>

lemma rain_fold_alpha:
  "0 < a0 \<Longrightarrow> \<forall>e \<in> set es. 0 < snd (snd e)
     \<Longrightarrow> \<exists>k a md. foldl (rain_step fr) (Fin k0, Fin a0, md0) es = (Fin k, Fin a, md) \<and> 0 < a"
proof (induction es arbitrary: k0 a0 md0)
  case Nil
  then show ?case by simp
next
  case (Cons e es)
  show ?case
  proof (cases "Math_abs (Fin (fst e) - fr) < md0")
    case True
    then have "rain_step fr (Fin k0, Fin a0, md0) e
                 = (Fin (fst (snd e)), Fin (snd (snd e)), Math_abs (Fin (fst e) - fr))"
      by (simp add: rain_step_def Let_def)
    then show ?thesis
      using Cons.IH[of "snd (snd e)" "fst (snd e)" "Math_abs (Fin (fst e) - fr)"] Cons.prems(2)
      by simp
  next
    case False
    then have "rain_step fr (Fin k0, Fin a0, md0) e = (Fin k0, Fin a0, md0)"
      by (simp add: rain_step_def Let_def)
    then show ?thesis
      using Cons.IH[of a0 k0 md0] Cons.prems by simp
  qed
qed

lemma rain_loop_alpha: "\<exists>k a md. rain_loop fr = (Fin k, Fin a, md) \<and> 0 < a"
  unfolding rain_loop_def
  by (rule rain_fold_alpha) (simp_all add: RAIN_COEFFS_def)

lemma vacuum_baseline_off_horizon:
  assumes "rainRate p = Some (Fin 0)" "tec p = Some (Fin 0)" "freq p = Some (Fin f)" "1 \<le> f"
    "dflt (Fin 1) (correctionFactor p) = Fin c"
    "Math_sin (apparentElevation (calculateLinkBudget p) * Math_PI / Fin 180) = Fin s"
    "s \<noteq> 0" "s \<noteq> - 0.135" "f \<le> 1000"
  shows "attRain (calculateLinkBudget p) = Fin 0"
    and "lossFaraday (calculateLinkBudget p) = Fin 0"
    and "groupDelayNs (calculateLinkBudget p) = Fin 0"
proof -
  obtain k a md where rc: "rain_loop (Fin f) = (Fin k, Fin a, md)" and a: "0 < a"
    using rain_loop_alpha by blast
  have d: "1 + 0.045 * (3 / s) \<noteq> 0"
    using assms(7,8) by (simp add: field_simps)
  have p0: "Math_pow (Fin 0) (Fin a) = Fin 0"
    using a by (simp add: Math_pow.simps)
  show "attRain (calculateLinkBudget p) = Fin 0"
    unfolding attRain_eq Let_def assms(6)
    using d assms(7) by (simp add: assms(1,3,5) num_def rc p0)
  have f0: "0 < f"
    using assms(4) by simp
  have f2: "f powr 2 * s \<noteq> 0"
    using f0 assms(7) by simp
  have pf: "Math_pow (Fin f) (Fin 2) = Fin (f powr 2)"
    using assms(4,9) by (intro Math_pow_ge1) simp_all
  show "lossFaraday (calculateLinkBudget p) = Fin 0"
    unfolding lossFaraday_eq Let_def assms(6)
    using f2 f0 by (simp add: assms(2,3) num_def dflt_def pf Math_PI_def Math_abs_def
        Math_log10_def)
  have "Math_max (Fin 0.01) (Fin s) = Fin (max 0.01 s)"
    by (simp add: Math_max_def max_def)
  moreover have "f * f * max 0.01 s \<noteq> 0"
    using f0 by (simp add: max_def)
  ultimately show "groupDelayNs (calculateLinkBudget p) = Fin 0"
    unfolding groupDelayNs_eq Let_def assms(6)
    by (simp add: assms(2,3) num_def dflt_def)
qed

lemma vacuum_baseline_at_30:
  assumes "rainRate p = Some (Fin 0)" "tec p = Some (Fin 0)" "freq p = Some (Fin 30)"
    "correctionFactor p = None" "elevation p = Some (Fin 30)"
  shows "attRain (calculateLinkBudget p) = Fin 0 \<and> lossFaraday (calculateLinkBudget p) = Fin 0
         \<and> groupDelayNs (calculateLinkBudget p) = Fin 0"
  using vacuum_baseline_off_horizon[OF assms(1,2,3) _ _ sin_elev_30[OF assms(5)], of 1] s30_pos
  by (simp add: assms(4) dflt_def)

end
